theory Spec2Isabelle
  imports Complex_Main "HOL-Library.Multiset" "HOL-Library.Char_ord" "HOL-Library.List_Lexorder"
    "HOL-Library.Sublist"
begin

section \<open>Data model of ax/core/observation.py\<close>

text \<open>
  Python objects are mutable and are held by reference, so the embedding keeps an explicit
  store. An address is an index into one of three tables of the store: the dict objects
  (parameter mappings), the \<open>ObservationFeatures\<close> objects and the \<open>ObservationData\<close> objects.
  Allocation appends to a table, so the address of a new object is the old length of its table.

  A dict is an association list in insertion order (Python dicts iterate in insertion order);
  a well-formed dict has distinct keys.

  Parameter values are the scalars of \<open>TParameterization\<close>, with the two numpy scalar types
  that \<open>__hash__\<close> tests for kept apart. Floating-point numbers are a type parameter \<open>'f\<close>:
  nothing below assumes any law of their arithmetic.
\<close>

datatype 'f pval =
    PNone
  | PBool bool
  | PInt int
  | PFloat 'f
  | PStr string
  | PInt64 int
  | PFloat32 'f

type_synonym addr = nat

type_synonym 'f pydict = "(string \<times> 'f pval) list"

record ObservationFeatures =
  parameters :: addr
  trial_index :: "int option"
  start_time :: "int option"
  end_time :: "int option"
  random_split :: "int option"

text \<open>A numpy array: its shape and its elements in row-major order.\<close>

record 'f ndarray =
  shape :: "nat list"
  elems :: "'f list"

record 'f ObservationData =
  metric_names :: "string list"
  means :: "'f ndarray"
  covariance :: "'f ndarray"

record Observation =
  features :: addr
  data :: addr
  arm_name :: "string option"

record 'f heap =
  dicts :: "'f pydict list"
  feats :: "ObservationFeatures list"
  datas :: "'f ObservationData list"

text \<open>
  The exceptions the module can raise. \<open>ValueError_shape which expected actual\<close> is the
  \<open>ValueError\<close> of \<open>ObservationData.__init__\<close>; its three fields are the three things the
  message is formatted from: the array named in the text, the expected and the actual shape.
\<close>

datatype error =
    KeyError
  | TypeError
  | AttributeError
  | JSONDecodeError
  | ValueError_groupby
  | ValueError_shape string "nat list" "nat list"

subsection \<open>Dict operations\<close>

text \<open>\<open>d[k] = v\<close>: an existing key keeps its position, a new key goes last.\<close>

fun setitem :: "'f pydict \<Rightarrow> string \<Rightarrow> 'f pval \<Rightarrow> 'f pydict" where
  "setitem [] k v = [(k, v)]"
| "setitem ((k', v') # d) k v = (if k' = k then (k, v) # d else (k', v') # setitem d k v)"

text \<open>\<open>d.update(other)\<close>: writes the items of \<open>other\<close> in their order.\<close>

definition dict_update :: "'f pydict \<Rightarrow> 'f pydict \<Rightarrow> 'f pydict" where
  "dict_update d other = fold (\<lambda>(k, v) acc. setitem acc k v) other d"

text \<open>\<open>d.copy()\<close>: a new dict object with the same items.\<close>

definition dict_copy :: "addr \<Rightarrow> 'f heap \<Rightarrow> addr \<times> 'f heap" where
  "dict_copy a h = (length (dicts h), h\<lparr>dicts := dicts h @ [dicts h ! a]\<rparr>)"

text \<open>\<open>d[k] = v\<close> on the dict object at address \<open>a\<close>.\<close>

definition heap_setitem :: "addr \<Rightarrow> string \<Rightarrow> 'f pval \<Rightarrow> 'f heap \<Rightarrow> 'f heap" where
  "heap_setitem a k v h = h\<lparr>dicts := (dicts h)[a := setitem (dicts h ! a) k v]\<rparr>"

subsection \<open>ObservationData\<close>

text \<open>
  \<open>ObservationData.__init__\<close>: the two shape tests, in the order of the source, then the
  object is created. On a failed test nothing is allocated.
\<close>

definition new_ObservationData ::
  "string list \<Rightarrow> 'f ndarray \<Rightarrow> 'f ndarray \<Rightarrow> 'f heap \<Rightarrow> (error + addr) \<times> 'f heap" where
  "new_ObservationData mn m c h =
    (let k = length mn in
     if shape m \<noteq> [k] then (Inl (ValueError_shape ''means'' [k] (shape m)), h)
     else if shape c \<noteq> [k, k] then (Inl (ValueError_shape ''covariance'' [k, k] (shape c)), h)
     else (Inr (length (datas h)),
           h\<lparr>datas := datas h @ [\<lparr>metric_names = mn, means = m, covariance = c\<rparr>]\<rparr>))"

subsection \<open>ObservationFeatures\<close>

text \<open>
  Modelled from the spec: the class \<open>Arm\<close> of \<open>ax.core.arm\<close>, which this module imports.
  The spec: an arm is a named, fixed parameter configuration, and the registry owns the
  canonical parameter values. An arm holds the dict of its parameters; \<open>arm_parameters\<close> is
  the address of that dict.
\<close>

record Arm =
  arm_parameters :: addr

text \<open>
  Modelled from the spec: the read \<open>arm.parameters\<close>, a property of the class \<open>Arm\<close>, which
  is not part of this module. The spec: \<open>from_arm\<close> produces a Feature Point whose
  \<open>parameters\<close> is a fresh copy of the arm's parameter mapping. \<open>from_arm\<close> passes on what
  the read gives, so it is the read that gives the fresh copy: a new dict with the items of
  the dict the arm holds.
\<close>

definition read_parameters :: "Arm \<Rightarrow> 'f heap \<Rightarrow> addr \<times> 'f heap" where
  "read_parameters arm h = dict_copy (arm_parameters arm) h"

text \<open>\<open>ObservationFeatures.__init__\<close> stores its five arguments in a new object.\<close>

definition new_ObservationFeatures ::
  "addr \<Rightarrow> int option \<Rightarrow> int option \<Rightarrow> int option \<Rightarrow> int option \<Rightarrow> 'f heap
     \<Rightarrow> addr \<times> 'f heap" where
  "new_ObservationFeatures p ti st et rs h =
    (length (feats h),
     h\<lparr>feats := feats h @ [\<lparr>parameters = p, trial_index = ti, start_time = st,
                              end_time = et, random_split = rs\<rparr>]\<rparr>)"

text \<open>
  \<open>from_arm\<close> reads \<open>arm.parameters\<close> and passes the result on to the constructor as it
  is, with the four other arguments. An argument that the caller does not supply is
  \<open>None\<close>, the default of the source.
\<close>

definition from_arm ::
  "Arm \<Rightarrow> int option \<Rightarrow> int option \<Rightarrow> int option \<Rightarrow> int option \<Rightarrow> 'f heap
     \<Rightarrow> addr \<times> 'f heap" where
  "from_arm arm ti st et rs h =
    (let (p, h1) = read_parameters arm h in new_ObservationFeatures p ti st et rs h1)"

text \<open>Assignment to one attribute of the \<open>ObservationFeatures\<close> object at an address.\<close>

definition set_trial_index :: "addr \<Rightarrow> int option \<Rightarrow> 'f heap \<Rightarrow> 'f heap" where
  "set_trial_index a v h = h\<lparr>feats := (feats h)[a := (feats h ! a)\<lparr>trial_index := v\<rparr>]\<rparr>"

definition set_start_time :: "addr \<Rightarrow> int option \<Rightarrow> 'f heap \<Rightarrow> 'f heap" where
  "set_start_time a v h = h\<lparr>feats := (feats h)[a := (feats h ! a)\<lparr>start_time := v\<rparr>]\<rparr>"

definition set_end_time :: "addr \<Rightarrow> int option \<Rightarrow> 'f heap \<Rightarrow> 'f heap" where
  "set_end_time a v h = h\<lparr>feats := (feats h)[a := (feats h ! a)\<lparr>end_time := v\<rparr>]\<rparr>"

definition set_random_split :: "addr \<Rightarrow> int option \<Rightarrow> 'f heap \<Rightarrow> 'f heap" where
  "set_random_split a v h = h\<lparr>feats := (feats h)[a := (feats h ! a)\<lparr>random_split := v\<rparr>]\<rparr>"

text \<open>
  \<open>update_features\<close>, statement by statement: the dict of \<open>self\<close> is updated in place with
  the dict of \<open>new_features\<close>, then each of the four fields is assigned when the field of
  \<open>new_features\<close> is not \<open>None\<close>; the method returns \<open>self\<close>.
\<close>

definition update_features :: "addr \<Rightarrow> addr \<Rightarrow> 'f heap \<Rightarrow> addr \<times> 'f heap" where
  "update_features self new_features h =
    (let h1 = h\<lparr>dicts := (dicts h)[parameters (feats h ! self) :=
                  dict_update (dicts h ! parameters (feats h ! self))
                              (dicts h ! parameters (feats h ! new_features))]\<rparr>;
         h2 = (if trial_index (feats h1 ! new_features) \<noteq> None
               then set_trial_index self (trial_index (feats h1 ! new_features)) h1 else h1);
         h3 = (if start_time (feats h2 ! new_features) \<noteq> None
               then set_start_time self (start_time (feats h2 ! new_features)) h2 else h2);
         h4 = (if end_time (feats h3 ! new_features) \<noteq> None
               then set_end_time self (end_time (feats h3 ! new_features)) h3 else h3);
         h5 = (if random_split (feats h4 ! new_features) \<noteq> None
               then set_random_split self (random_split (feats h4 ! new_features)) h4 else h4)
     in (self, h5))"

text \<open>
  \<open>__hash__\<close>. The loop over the items of the copied dict replaces a \<open>np.int64\<close> by an
  \<open>int\<close> and a \<open>np.float32\<close> by a \<open>float\<close>, under the same key. The copy is local to the
  method, so it is a value here and not an object of the store.
\<close>

definition coerce_item :: "string \<times> 'f pval \<Rightarrow> 'f pydict \<Rightarrow> 'f pydict" where
  "coerce_item kv d =
    (case snd kv of
       PInt64 n \<Rightarrow> setitem d (fst kv) (PInt n)
     | PFloat32 x \<Rightarrow> setitem d (fst kv) (PFloat x)
     | _ \<Rightarrow> d)"

definition coerce_numpy :: "'f pydict \<Rightarrow> 'f pydict" where
  "coerce_numpy d = fold coerce_item d d"

text \<open>
  \<open>json.dumps(parameters, sort_keys=True)\<close>. The encoders of the json library for strings,
  integers and floats are parameters; the structure of the output is written out: the items
  sorted by key, each as \<open>key: value\<close>, separated by a comma and a blank, in braces. A numpy
  scalar is not serialisable (\<open>TypeError\<close>).
\<close>

record 'f json_encoder =
  enc_string :: "string \<Rightarrow> string"
  enc_int :: "int \<Rightarrow> string"
  enc_float :: "'f \<Rightarrow> string"

fun dumps_value :: "'f json_encoder \<Rightarrow> 'f pval \<Rightarrow> error + string" where
  "dumps_value enc PNone = Inr ''null''"
| "dumps_value enc (PBool b) = Inr (if b then ''true'' else ''false'')"
| "dumps_value enc (PInt n) = Inr (enc_int enc n)"
| "dumps_value enc (PFloat x) = Inr (enc_float enc x)"
| "dumps_value enc (PStr s) = Inr (enc_string enc s)"
| "dumps_value enc (PInt64 n) = Inl TypeError"
| "dumps_value enc (PFloat32 x) = Inl TypeError"

fun dumps_items :: "'f json_encoder \<Rightarrow> 'f pydict \<Rightarrow> error + string list" where
  "dumps_items enc [] = Inr []"
| "dumps_items enc ((k, v) # d) =
    (case dumps_value enc v of
       Inl e \<Rightarrow> Inl e
     | Inr s \<Rightarrow> (case dumps_items enc d of
          Inl e \<Rightarrow> Inl e
        | Inr ss \<Rightarrow> Inr ((enc_string enc k @ '': '' @ s) # ss)))"

fun join :: "string \<Rightarrow> string list \<Rightarrow> string" where
  "join sep [] = []"
| "join sep [s] = s"
| "join sep (s # t # ss) = s @ sep @ join sep (t # ss)"

definition json_dumps :: "'f json_encoder \<Rightarrow> 'f pydict \<Rightarrow> error + string" where
  "json_dumps enc d =
    (case dumps_items enc (sort_key fst d) of
       Inl e \<Rightarrow> Inl e
     | Inr ss \<Rightarrow> Inr (''{'' @ join '', '' ss @ ''}''))"

text \<open>
  The hash of the tuple is computed by Python's built-in \<open>hash\<close>, a parameter here.
\<close>

type_synonym hash_key = "string \<times> int option \<times> int option \<times> int option \<times> int option"

definition features_hash ::
  "'f json_encoder \<Rightarrow> (hash_key \<Rightarrow> int) \<Rightarrow> addr \<Rightarrow> 'f heap \<Rightarrow> error + int" where
  "features_hash enc py_hash self h =
    (let f = feats h ! self;
         parameters' = coerce_numpy (dicts h ! parameters f)
     in case json_dumps enc parameters' of
          Inl e \<Rightarrow> Inl e
        | Inr s \<Rightarrow> Inr (py_hash (s, trial_index f, start_time f, end_time f, random_split f)))"

text \<open>
  Modelled from the spec: \<open>Base.__eq__\<close>, the equality that \<open>ObservationFeatures\<close> inherits
  from \<open>ax.core.base.Base\<close>, is not part of this module. The spec: two Feature Points are
  equal iff their canonicalized parameter mapping (sorted-key serialisation) and all four
  context fields are equal.
\<close>

definition features_eq :: "'f json_encoder \<Rightarrow> addr \<Rightarrow> addr \<Rightarrow> 'f heap \<Rightarrow> bool" where
  "features_eq enc a b h =
    (json_dumps enc (coerce_numpy (dicts h ! parameters (feats h ! a)))
       = json_dumps enc (coerce_numpy (dicts h ! parameters (feats h ! b)))
     \<and> trial_index (feats h ! a) = trial_index (feats h ! b)
     \<and> start_time (feats h ! a) = start_time (feats h ! b)
     \<and> end_time (feats h ! a) = end_time (feats h ! b)
     \<and> random_split (feats h ! a) = random_split (feats h ! b))"

subsection \<open>separate\_observations\<close>

text \<open>
  \<open>deepcopy\<close> of an \<open>ObservationFeatures\<close> object makes a new dict with the same items
  (the values are immutable scalars) and a new object that refers to it; \<open>deepcopy\<close> of an
  \<open>ObservationData\<close> object makes a new object with copies of the list and the two arrays,
  which the object's cell holds by value.
\<close>

definition deepcopy_features :: "addr \<Rightarrow> 'f heap \<Rightarrow> addr \<times> 'f heap" where
  "deepcopy_features a h =
    (let f = feats h ! a;
         (p, h1) = dict_copy (parameters f) h
     in (length (feats h1), h1\<lparr>feats := feats h1 @ [f\<lparr>parameters := p\<rparr>]\<rparr>))"

definition deepcopy_data :: "addr \<Rightarrow> 'f heap \<Rightarrow> addr \<times> 'f heap" where
  "deepcopy_data a h = (length (datas h), h\<lparr>datas := datas h @ [datas h ! a]\<rparr>)"

text \<open>A list comprehension whose element expression allocates.\<close>

fun map_heap :: "('a \<Rightarrow> 'f heap \<Rightarrow> 'b \<times> 'f heap) \<Rightarrow> 'a list \<Rightarrow> 'f heap \<Rightarrow> 'b list \<times> 'f heap" where
  "map_heap f [] h = ([], h)"
| "map_heap f (x # xs) h =
    (let (y, h1) = f x h; (ys, h2) = map_heap f xs h1 in (y # ys, h2))"

definition separate_observations ::
  "Observation list \<Rightarrow> bool \<Rightarrow> 'f heap \<Rightarrow> (addr list \<times> addr list) \<times> 'f heap" where
  "separate_observations observations copy h =
    (if copy then
       (let (observation_features, h1) = map_heap deepcopy_features (map features observations) h;
            (observation_data, h2) = map_heap deepcopy_data (map data observations) h1
        in ((observation_features, observation_data), h2))
     else ((map features observations, map data observations), h))"

subsection \<open>The measurement table\<close>

text \<open>
  Modelled from the spec: the table \<open>data.df\<close> of \<open>ax.core.data.Data\<close>, which this module
  imports. The spec: a row-oriented table with at least the columns \<open>metric_name\<close>, \<open>mean\<close>,
  \<open>sem\<close> and \<open>arm_name\<close>, and optionally \<open>trial_index\<close>, \<open>start_time\<close>, \<open>end_time\<close>,
  \<open>random_split\<close> and \<open>fidelities\<close>, the last holding a serialised mapping. Here the three
  value columns are always there; \<open>columns\<close> says which of the six identifying columns the
  table has (the source tests for all six, \<open>arm_name\<close> too), and the field of an absent
  column is never read. Cells of the identifying columns are not missing values. A
  timestamp is an integer.
\<close>

record 'f row =
  c_arm_name :: string
  c_trial_index :: int
  c_start_time :: int
  c_end_time :: int
  c_random_split :: int
  c_fidelities :: string
  c_metric_name :: string
  c_mean :: 'f
  c_sem :: 'f

record 'f table =
  columns :: "string list"
  rows :: "'f row list"

datatype cell = CStr string | CInt int

fun cell_of :: "'f row \<Rightarrow> string \<Rightarrow> cell" where
  "cell_of r c =
    (if c = ''arm_name'' then CStr (c_arm_name r)
     else if c = ''trial_index'' then CInt (c_trial_index r)
     else if c = ''start_time'' then CInt (c_start_time r)
     else if c = ''end_time'' then CInt (c_end_time r)
     else if c = ''random_split'' then CInt (c_random_split r)
     else CStr (c_fidelities r))"

text \<open>
  pandas sorts the group keys. Within a column all cells have the same type; an order
  between the two types is fixed only to make the order on cells total.
\<close>

instantiation cell :: linorder
begin

fun less_eq_cell :: "cell \<Rightarrow> cell \<Rightarrow> bool" where
  "less_eq_cell (CInt a) (CInt b) = (a \<le> b)"
| "less_eq_cell (CStr a) (CStr b) = (a \<le> b)"
| "less_eq_cell (CInt a) (CStr b) = True"
| "less_eq_cell (CStr a) (CInt b) = False"

definition less_cell :: "cell \<Rightarrow> cell \<Rightarrow> bool" where
  "less_cell x y = (x \<le> y \<and> \<not> y \<le> x)"

instance
proof
  fix x y z :: cell
  show "(x < y) = (x \<le> y \<and> \<not> y \<le> x)" by (simp add: less_cell_def)
  show "x \<le> x" by (cases x) simp_all
  show "x \<le> y \<Longrightarrow> y \<le> z \<Longrightarrow> x \<le> z" by (cases x; cases y; cases z) simp_all
  show "x \<le> y \<Longrightarrow> y \<le> x \<Longrightarrow> x = y" by (cases x; cases y) simp_all
  show "x \<le> y \<or> y \<le> x" by (cases x; cases y) auto
qed

end

text \<open>
  The six identifying columns. \<open>feature_cols\<close> is the list made from the intersection of
  this set with the table's columns; the order of that list is the iteration order of a
  Python set, which is not fixed, so it is the parameter \<open>ord\<close>: the six names in some order.
\<close>

definition id_columns :: "string list" where
  "id_columns = [''arm_name'', ''trial_index'', ''start_time'', ''end_time'',
                 ''random_split'', ''fidelities'']"

definition set_order :: "string list \<Rightarrow> bool" where
  "set_order ord = (distinct ord \<and> set ord = set id_columns)"

definition feature_cols :: "string list \<Rightarrow> 'f table \<Rightarrow> string list" where
  "feature_cols ord t = filter (\<lambda>c. c \<in> set (columns t)) ord"

definition key_of :: "string list \<Rightarrow> 'f row \<Rightarrow> cell list" where
  "key_of cols r = map (cell_of r) cols"

text \<open>
  \<open>df.groupby(by=feature_cols)\<close>, iterated: one pair of key and rows for each distinct key, the keys in
  sorted order, the rows of a group in the order of the table.
\<close>

definition groupby :: "string list \<Rightarrow> 'f row list \<Rightarrow> (cell list \<times> 'f row list) list" where
  "groupby cols rs =
    map (\<lambda>k. (k, filter (\<lambda>r. key_of cols r = k) rs)) (sort (remdups (map (key_of cols) rs)))"

subsection \<open>numpy\<close>

text \<open>
  \<open>Series.values\<close> is a one-dimensional array; \<open>a ** 2\<close> squares each element;
  \<open>np.diag\<close> of a one-dimensional array of length n is the n by n array with the
  elements on the diagonal and zero elsewhere.
\<close>

definition values1 :: "'f list \<Rightarrow> 'f ndarray" where
  "values1 xs = \<lparr>shape = [length xs], elems = xs\<rparr>"

definition np_square :: "('f :: times) ndarray \<Rightarrow> 'f ndarray" where
  "np_square a = a\<lparr>elems := map (\<lambda>x. x * x) (elems a)\<rparr>"

definition np_diag :: "('f :: zero) ndarray \<Rightarrow> 'f ndarray" where
  "np_diag a =
    (let n = length (elems a)
     in \<lparr>shape = [n, n],
         elems = concat (map (\<lambda>i. map (\<lambda>j. if i = j then elems a ! i else 0) [0..<n]) [0..<n])\<rparr>)"

text \<open>Element (i, j) of a two-dimensional array.\<close>

definition at2 :: "'f ndarray \<Rightarrow> nat \<Rightarrow> nat \<Rightarrow> 'f" where
  "at2 a i j = elems a ! (i * (shape a ! 1) + j)"

subsection \<open>observations\_from\_data\<close>

text \<open>
  \<open>json.loads\<close> is a parameter: for a text it gives a decoding error, a JSON object as a
  dict, or a JSON value that is not an object.
\<close>

datatype 'f json = JMalformed | JObject "'f pydict" | JOther

text \<open>
  \<open>experiment.arms_by_name[features["arm_name"]]\<close>. The registry (an attribute of
  \<open>ax.core.experiment.Experiment\<close>) is a dict from arm names to arms, a partial map here; a
  key that is no string is in no such dict.
\<close>

fun arms_by_name :: "(string \<rightharpoonup> Arm) \<Rightarrow> cell \<Rightarrow> Arm option" where
  "arms_by_name reg (CStr n) = reg n"
| "arms_by_name reg (CInt i) = None"

fun cell_str :: "cell \<Rightarrow> string option" where
  "cell_str (CStr n) = Some n"
| "cell_str (CInt i) = None"

text \<open>\<open>features.get(f, None)\<close> for one of the four integer-valued columns.\<close>

definition features_get :: "(string \<times> cell) list \<Rightarrow> string \<Rightarrow> int option" where
  "features_get fd f = (case map_of fd f of Some (CInt i) \<Rightarrow> Some i | _ \<Rightarrow> None)"

text \<open>
  The fidelity block of the loop body: nothing when the group key has no \<open>fidelities\<close>;
  else the text is decoded and each item is assigned into the dict \<open>obs_parameters\<close>.
\<close>

definition apply_fidelities ::
  "(string \<Rightarrow> 'f json) \<Rightarrow> (string \<times> cell) list \<Rightarrow> addr \<Rightarrow> 'f heap \<Rightarrow> (error + unit) \<times> 'f heap" where
  "apply_fidelities loads fd obs_parameters h =
    (case map_of fd ''fidelities'' of
       None \<Rightarrow> (Inr (), h)
     | Some (CInt i) \<Rightarrow> (Inl TypeError, h)
     | Some (CStr s) \<Rightarrow>
        (case loads s of
           JMalformed \<Rightarrow> (Inl JSONDecodeError, h)
         | JOther \<Rightarrow> (Inl AttributeError, h)
         | JObject fidelity_dict \<Rightarrow>
            (Inr (), fold (\<lambda>(param_name, val). heap_setitem obs_parameters param_name val)
                          fidelity_dict h)))"

text \<open>
  The body of the loop for one group \<open>(g, d)\<close>. The expression \<open>.parameters.copy()\<close> is
  one new dict with the items of the dict the arm holds: what the read of \<open>.parameters\<close>
  gives is referred to by nothing once \<open>.copy()\<close> has returned, and is left out of the
  store. \<open>obs_kwargs\<close> gets the key \<open>parameters\<close>
  only when the copied dict is not empty at that point, before the fidelities are applied;
  \<open>ObservationFeatures(**obs_kwargs)\<close> without that key is a \<open>TypeError\<close>, since
  \<open>parameters\<close> is a required argument of the constructor.
\<close>

definition observation_of_group ::
  "(string \<Rightarrow> 'f json) \<Rightarrow> (string \<rightharpoonup> Arm) \<Rightarrow> string list \<Rightarrow> cell list \<times> ('f :: {zero, times}) row list
     \<Rightarrow> 'f heap \<Rightarrow> (error + Observation) \<times> 'f heap" where
  "observation_of_group loads reg fcols gd h =
    (let fd = zip fcols (fst gd); d = snd gd in
     case map_of fd ''arm_name'' of
       None \<Rightarrow> (Inl KeyError, h)
     | Some name \<Rightarrow>
        (case arms_by_name reg name of
           None \<Rightarrow> (Inl KeyError, h)
         | Some arm \<Rightarrow>
            (let (obs_parameters, h1) = dict_copy (arm_parameters arm) h;
                 kw_parameters = (if dicts h1 ! obs_parameters \<noteq> [] then Some obs_parameters else None);
                 ti = features_get fd ''trial_index'';
                 st = features_get fd ''start_time'';
                 et = features_get fd ''end_time'';
                 rs = features_get fd ''random_split''
             in case apply_fidelities loads fd obs_parameters h1 of
                  (Inl e, h2) \<Rightarrow> (Inl e, h2)
                | (Inr u, h2) \<Rightarrow>
                   (case kw_parameters of
                      None \<Rightarrow> (Inl TypeError, h2)
                    | Some p \<Rightarrow>
                       (let (f, h3) = new_ObservationFeatures p ti st et rs h2
                        in case new_ObservationData (map c_metric_name d)
                                  (values1 (map c_mean d))
                                  (np_diag (np_square (values1 (map c_sem d)))) h3 of
                             (Inl e, h4) \<Rightarrow> (Inl e, h4)
                           | (Inr od, h4) \<Rightarrow>
                              (Inr \<lparr>features = f, data = od, arm_name = cell_str name\<rparr>, h4))))))"

text \<open>The loop: the observations are appended in the order of the groups; an exception ends it.\<close>

fun convert_groups ::
  "(string \<Rightarrow> 'f json) \<Rightarrow> (string \<rightharpoonup> Arm) \<Rightarrow> string list
     \<Rightarrow> (cell list \<times> ('f :: {zero, times}) row list) list
     \<Rightarrow> 'f heap \<Rightarrow> (error + Observation list) \<times> 'f heap" where
  "convert_groups loads reg fcols [] h = (Inr [], h)"
| "convert_groups loads reg fcols (gd # gds) h =
    (case observation_of_group loads reg fcols gd h of
       (Inl e, h1) \<Rightarrow> (Inl e, h1)
     | (Inr ob, h1) \<Rightarrow>
        (case convert_groups loads reg fcols gds h1 of
           (Inl e, h2) \<Rightarrow> (Inl e, h2)
         | (Inr obs, h2) \<Rightarrow> (Inr (ob # obs), h2)))"

text \<open>
  \<open>groupby\<close> with an empty list of keys raises \<open>ValueError\<close> (no group keys passed).
\<close>

definition observations_from_data ::
  "string list \<Rightarrow> (string \<Rightarrow> 'f json) \<Rightarrow> (string \<rightharpoonup> Arm) \<Rightarrow> ('f :: {zero, times}) table
     \<Rightarrow> 'f heap \<Rightarrow> (error + Observation list) \<times> 'f heap" where
  "observations_from_data ord loads reg t h =
    (let fcols = feature_cols ord t in
     if fcols = [] then (Inl ValueError_groupby, h)
     else convert_groups loads reg fcols (groupby fcols (rows t)) h)"

section \<open>Notions used in the statements and proofs\<close>

text \<open>What the loop of \<open>__hash__\<close> makes of one value.\<close>

fun coerce :: "'f pval \<Rightarrow> 'f pval" where
  "coerce (PInt64 n) = PInt n"
| "coerce (PFloat32 x) = PFloat x"
| "coerce v = v"

text \<open>
  The items that the fidelity block assigns for a group key: those of the decoded object,
  none when the key has no \<open>fidelities\<close>.
\<close>

definition fidelity_items :: "(string \<Rightarrow> 'f json) \<Rightarrow> (string \<times> cell) list \<Rightarrow> 'f pydict" where
  "fidelity_items loads fd =
    (case map_of fd ''fidelities'' of
       Some (CStr s) \<Rightarrow> (case loads s of JObject items \<Rightarrow> items | _ \<Rightarrow> [])
     | _ \<Rightarrow> [])"

text \<open>
  \<open>h'\<close> extends \<open>h\<close>: every object of \<open>h\<close> is in \<open>h'\<close> at the same address with the same
  contents; \<open>h'\<close> may hold more objects.
\<close>

definition heap_extends :: "'f heap \<Rightarrow> 'f heap \<Rightarrow> bool" where
  "heap_extends h h' =
    (prefix (dicts h) (dicts h') \<and> prefix (feats h) (feats h') \<and> prefix (datas h) (datas h'))"

text \<open>Every arm of the registry refers to a dict of the store: no dangling reference.\<close>

definition registry_ok :: "(string \<rightharpoonup> Arm) \<Rightarrow> 'f heap \<Rightarrow> bool" where
  "registry_ok reg h = (\<forall>n arm. reg n = Some arm \<longrightarrow> arm_parameters arm < length (dicts h))"

text \<open>The fidelity block raises no exception for a group key.\<close>

definition fidelities_ok :: "(string \<Rightarrow> 'f json) \<Rightarrow> (string \<times> cell) list \<Rightarrow> bool" where
  "fidelities_ok loads fd =
    (case map_of fd ''fidelities'' of
       None \<Rightarrow> True
     | Some (CStr s) \<Rightarrow> (case loads s of JObject items \<Rightarrow> True | _ \<Rightarrow> False)
     | Some (CInt i) \<Rightarrow> False)"

text \<open>
  What the loop body has made for the group with index \<open>i\<close>, counted from the store \<open>h\<close>
  the loop started with: the addresses of the three new objects and their contents in the
  final store \<open>h'\<close>.
\<close>

definition group_post ::
  "(string \<Rightarrow> 'f json) \<Rightarrow> (string \<rightharpoonup> Arm) \<Rightarrow> string list \<Rightarrow> ('f :: {zero, times}) heap
     \<Rightarrow> cell list \<times> 'f row list \<Rightarrow> nat \<Rightarrow> Observation \<Rightarrow> 'f heap \<Rightarrow> bool" where
  "group_post loads reg fcols h gd i ob h' =
    (features ob = length (feats h) + i \<and> data ob = length (datas h) + i
     \<and> (\<exists>name arm. map_of (zip fcols (fst gd)) ''arm_name'' = Some name
           \<and> arms_by_name reg name = Some arm
           \<and> dicts h ! arm_parameters arm \<noteq> []
           \<and> fidelities_ok loads (zip fcols (fst gd))
           \<and> arm_name ob = cell_str name
           \<and> dicts h' ! (length (dicts h) + i)
               = dict_update (dicts h ! arm_parameters arm)
                             (fidelity_items loads (zip fcols (fst gd))))
     \<and> feats h' ! (length (feats h) + i)
          = \<lparr>parameters = length (dicts h) + i,
             trial_index = features_get (zip fcols (fst gd)) ''trial_index'',
             start_time = features_get (zip fcols (fst gd)) ''start_time'',
             end_time = features_get (zip fcols (fst gd)) ''end_time'',
             random_split = features_get (zip fcols (fst gd)) ''random_split''\<rparr>
     \<and> datas h' ! (length (datas h) + i)
          = \<lparr>metric_names = map c_metric_name (snd gd),
             means = values1 (map c_mean (snd gd)),
             covariance = np_diag (np_square (values1 (map c_sem (snd gd))))\<rparr>)"

text \<open>
  The condition under which the loop body raises no exception for a group key, and the
  condition under which the lookup of its arm fails.
\<close>

definition group_ok ::
  "(string \<Rightarrow> 'f json) \<Rightarrow> (string \<rightharpoonup> Arm) \<Rightarrow> string list \<Rightarrow> 'f heap \<Rightarrow> cell list \<Rightarrow> bool" where
  "group_ok loads reg fcols h g =
    (case map_of (zip fcols g) ''arm_name'' of
       None \<Rightarrow> False
     | Some name \<Rightarrow>
        (case arms_by_name reg name of
           None \<Rightarrow> False
         | Some arm \<Rightarrow> dicts h ! arm_parameters arm \<noteq> [] \<and> fidelities_ok loads (zip fcols g)))"

definition group_unknown :: "(string \<rightharpoonup> Arm) \<Rightarrow> string list \<Rightarrow> cell list \<Rightarrow> bool" where
  "group_unknown reg fcols g =
    (case map_of (zip fcols g) ''arm_name'' of
       None \<Rightarrow> True
     | Some name \<Rightarrow> arms_by_name reg name = None)"

section \<open>Lemmas\<close>

subsection \<open>Dicts\<close>

lemma map_of_setitem: "map_of (setitem d k v) = (map_of d)(k \<mapsto> v)"
  by (induction d k v rule: setitem.induct) auto

lemma keys_setitem: "fst ` set (setitem d k v) = insert k (fst ` set d)"
  by (induction d k v rule: setitem.induct) auto

lemma map_fst_setitem_mem: "k \<in> fst ` set d \<Longrightarrow> map fst (setitem d k v) = map fst d"
  by (induction d k v rule: setitem.induct) auto

lemma map_fst_setitem_new: "k \<notin> fst ` set d \<Longrightarrow> map fst (setitem d k v) = map fst d @ [k]"
  by (induction d k v rule: setitem.induct) auto

lemma distinct_setitem: "distinct (map fst d) \<Longrightarrow> distinct (map fst (setitem d k v))"
  by (cases "k \<in> fst ` set d") (simp_all add: map_fst_setitem_mem map_fst_setitem_new)

lemma map_of_dict_update:
  "distinct (map fst other) \<Longrightarrow> map_of (dict_update d other) = map_of d ++ map_of other"
  unfolding dict_update_def
proof (induction other arbitrary: d)
  case Nil
  then show ?case by simp
next
  case (Cons kv other)
  obtain k v where kv: "kv = (k, v)" by (cases kv)
  from Cons.prems kv have d: "distinct (map fst other)" and nk: "k \<notin> fst ` set other" by auto
  have none: "map_of other k = None" using nk by (simp add: map_of_eq_None_iff)
  have eq: "map_of (setitem d k v) ++ map_of other = map_of d ++ map_of ((k, v) # other)"
  proof
    fix x show "(map_of (setitem d k v) ++ map_of other) x = (map_of d ++ map_of ((k, v) # other)) x"
      using none by (cases "x = k") (simp_all add: map_of_setitem map_add_def split: option.splits)
  qed
  have "fold (\<lambda>(k, v) acc. setitem acc k v) (kv # other) d
      = fold (\<lambda>(k, v) acc. setitem acc k v) other (setitem d k v)"
    by (simp add: kv)
  then show ?case using Cons.IH [OF d, of "setitem d k v"] eq kv by metis
qed

lemma keys_dict_update: "fst ` set (dict_update d other) = fst ` set d \<union> fst ` set other"
  unfolding dict_update_def
  by (induction other arbitrary: d) (auto simp: keys_setitem split: prod.splits)

lemma distinct_dict_update: "distinct (map fst d) \<Longrightarrow> distinct (map fst (dict_update d other))"
  unfolding dict_update_def
  by (induction other arbitrary: d) (auto simp: distinct_setitem split: prod.splits)


subsection \<open>Canonical serialisation\<close>

lemma keys_coerce_item:
  "fst kv \<in> fst ` set d \<Longrightarrow> map fst (coerce_item kv d) = map fst d"
  by (auto simp: coerce_item_def map_fst_setitem_mem split: pval.splits)

lemma map_of_coerce_item:
  "map_of (coerce_item kv d) =
     (case snd kv of PInt64 n \<Rightarrow> (map_of d)(fst kv \<mapsto> PInt n)
      | PFloat32 x \<Rightarrow> (map_of d)(fst kv \<mapsto> PFloat x) | _ \<Rightarrow> map_of d)"
  by (auto simp: coerce_item_def map_of_setitem split: pval.splits)

lemma keys_fold_coerce:
  "fst ` set xs \<subseteq> fst ` set d \<Longrightarrow> map fst (fold coerce_item xs d) = map fst d"
proof (induction xs arbitrary: d)
  case Nil then show ?case by simp
next
  case (Cons kv xs)
  then have 1: "map fst (coerce_item kv d) = map fst d" by (simp add: keys_coerce_item)
  then have "fst ` set (coerce_item kv d) = fst ` set d" by (metis set_map)
  with Cons 1 show ?case by simp
qed

lemma map_fst_coerce_numpy: "map fst (coerce_numpy d) = map fst d"
  by (simp add: coerce_numpy_def keys_fold_coerce)

lemma map_of_fold_coerce:
  "distinct (map fst xs) \<Longrightarrow>
   map_of (fold coerce_item xs d) k =
     (case map_of xs k of None \<Rightarrow> map_of d k
      | Some v \<Rightarrow> (case v of PInt64 n \<Rightarrow> Some (PInt n) | PFloat32 x \<Rightarrow> Some (PFloat x) | _ \<Rightarrow> map_of d k))"
proof (induction xs arbitrary: d)
  case Nil then show ?case by simp
next
  case (Cons kv xs)
  obtain k' v' where kv: "kv = (k', v')" by (cases kv)
  from Cons.prems kv have d: "distinct (map fst xs)" and none: "map_of xs k' = None"
    by (auto simp: map_of_eq_None_iff)
  show ?case
    using none by (simp add: kv Cons.IH [OF d] map_of_coerce_item split: option.splits pval.splits)
qed

lemma map_of_coerce_numpy:
  "distinct (map fst d) \<Longrightarrow> map_of (coerce_numpy d) k = map_option coerce (map_of d k)"
  by (auto simp: coerce_numpy_def map_of_fold_coerce split: option.splits pval.splits)

lemma filter_key_distinct:
  "distinct (map fst xs) \<Longrightarrow> x \<in> set xs \<Longrightarrow> filter (\<lambda>y. fst x = fst y) xs = [x]"
proof (induction xs)
  case Nil then show ?case by simp
next
  case (Cons a xs)
  show ?case
  proof (cases "x = a")
    case True
    have "filter (\<lambda>y. fst a = fst y) xs = []"
      using Cons.prems(1) by (auto simp: filter_empty_conv)
    with True show ?thesis by simp
  next
    case False
    with Cons.prems have "x \<in> set xs" by simp
    moreover from this Cons.prems(1) have "fst x \<noteq> fst a" by (auto simp: image_iff)
    ultimately have "x \<in> set xs" "fst x \<noteq> fst a" by simp_all
    with Cons show ?thesis by simp
  qed
qed

lemma sort_key_canonical:
  assumes dx: "distinct (map fst xs)" and dy: "distinct (map fst ys)"
    and m: "map_of xs = map_of ys"
  shows "sort_key fst xs = sort_key fst (ys :: (string \<times> 'b) list)"
proof -
  have s: "set xs = set ys" using map_of_inject_set [OF dx dy] m by simp
  have dxs: "distinct xs" "distinct ys" using dx dy by (simp_all add: distinct_map)
  then have ms: "mset xs = mset ys" using s by (simp add: set_eq_iff_mset_eq_distinct)
  show ?thesis
  proof (rule properties_for_sort_key)
    show "mset (sort_key fst ys) = mset xs" using ms by simp
    show "sorted (map fst (sort_key fst ys))" by simp
    fix k assume "k \<in> set (sort_key fst ys)"
    then have k: "k \<in> set ys" "k \<in> set xs" using s by simp_all
    have "distinct (map fst (sort_key fst ys))" using dy by (simp add: distinct_map inj_on_def)
    then have "filter (\<lambda>x. fst k = fst x) (sort_key fst ys) = [k]"
      using k by (intro filter_key_distinct) simp_all
    moreover have "filter (\<lambda>x. fst k = fst x) xs = [k]" using dx k by (intro filter_key_distinct)
    ultimately show "filter (\<lambda>x. fst k = fst x) (sort_key fst ys) = filter (\<lambda>x. fst k = fst x) xs"
      by simp
  qed
qed

lemma json_dumps_order:
  assumes "distinct (map fst d1)" "distinct (map fst d2)" "set d1 = set d2"
  shows "json_dumps enc (coerce_numpy d1) = json_dumps enc (coerce_numpy d2)"
proof -
  have m: "map_of d1 = map_of d2" using assms by (simp add: map_of_inject_set)
  have "map_of (coerce_numpy d1) = map_of (coerce_numpy d2)"
    using assms m by (auto simp: fun_eq_iff map_of_coerce_numpy)
  then have "sort_key fst (coerce_numpy d1) = sort_key fst (coerce_numpy d2)"
    using assms by (intro sort_key_canonical) (simp_all add: map_fst_coerce_numpy)
  then show ?thesis by (simp add: json_dumps_def)
qed

subsection \<open>The loop body\<close>

lemma heap_extends_refl: "heap_extends h h"
  by (simp add: heap_extends_def)

lemma heap_extends_trans: "heap_extends h1 h2 \<Longrightarrow> heap_extends h2 h3 \<Longrightarrow> heap_extends h1 h3"
  by (auto simp: heap_extends_def)

lemma fold_heap_setitem:
  "a < length (dicts h) \<Longrightarrow>
   fold (\<lambda>(k, v). heap_setitem a k v) items h
     = h\<lparr>dicts := (dicts h)[a := dict_update (dicts h ! a) items]\<rparr>"
proof (induction items arbitrary: h)
  case Nil
  then show ?case by (simp add: dict_update_def)
next
  case (Cons kv items)
  obtain k v where kv: "kv = (k, v)" by (cases kv)
  have len: "a < length (dicts (heap_setitem a k v h))"
    using Cons.prems by (simp add: heap_setitem_def)
  show ?case
    using Cons.prems
    by (simp add: kv Cons.IH [OF len]) (simp add: heap_setitem_def dict_update_def)
qed

lemma apply_fidelities_Inr:
  assumes "apply_fidelities loads fd a h = (Inr u, h')" and "a < length (dicts h)"
  shows "h' = h\<lparr>dicts := (dicts h)[a := dict_update (dicts h ! a) (fidelity_items loads fd)]\<rparr>"
  using assms
  by (auto simp: apply_fidelities_def fidelity_items_def fold_heap_setitem dict_update_def
           split: option.splits cell.splits json.splits)

lemma apply_fidelities_Inr_ok:
  "apply_fidelities loads fd a h = (Inr u, h') \<Longrightarrow> fidelities_ok loads fd"
  by (auto simp: apply_fidelities_def fidelities_ok_def split: option.splits cell.splits json.splits)

lemma apply_fidelities_dicts:
  assumes "apply_fidelities loads fd a h = (res, h')" and "a < length (dicts h)"
  shows "\<exists>x. h' = h\<lparr>dicts := (dicts h)[a := x]\<rparr>"
proof (cases res)
  case (Inl e)
  with assms have "h' = h"
    by (auto simp: apply_fidelities_def split: option.splits cell.splits json.splits)
  then have "h' = h\<lparr>dicts := (dicts h)[a := dicts h ! a]\<rparr>" by simp
  then show ?thesis ..
next
  case (Inr u)
  with assms show ?thesis using apply_fidelities_Inr by blast
qed

lemma observation_of_group_Inr:
  assumes "observation_of_group loads reg fcols (g, d) h = (Inr ob, h')"
  shows "\<exists>name arm. map_of (zip fcols g) ''arm_name'' = Some name
           \<and> arms_by_name reg name = Some arm
           \<and> dicts h ! arm_parameters arm \<noteq> []
           \<and> fidelities_ok loads (zip fcols g)
           \<and> ob = \<lparr>features = length (feats h), data = length (datas h), arm_name = cell_str name\<rparr>
           \<and> h' = \<lparr>dicts = dicts h @ [dict_update (dicts h ! arm_parameters arm)
                                           (fidelity_items loads (zip fcols g))],
                    feats = feats h @ [\<lparr>parameters = length (dicts h),
                       trial_index = features_get (zip fcols g) ''trial_index'',
                       start_time = features_get (zip fcols g) ''start_time'',
                       end_time = features_get (zip fcols g) ''end_time'',
                       random_split = features_get (zip fcols g) ''random_split''\<rparr>],
                    datas = datas h @ [\<lparr>metric_names = map c_metric_name d,
                       means = values1 (map c_mean d),
                       covariance = np_diag (np_square (values1 (map c_sem d)))\<rparr>]\<rparr>"
proof -
  from assms obtain name where name: "map_of (zip fcols g) ''arm_name'' = Some name"
    by (auto simp: observation_of_group_def Let_def split: option.splits)
  from assms name obtain arm where arm: "arms_by_name reg name = Some arm"
    by (auto simp: observation_of_group_def Let_def split: option.splits)
  define h1 where "h1 = h\<lparr>dicts := dicts h @ [dicts h ! arm_parameters arm]\<rparr>"
  have a: "length (dicts h) < length (dicts h1)" by (simp add: h1_def)
  obtain r h2 where af: "apply_fidelities loads (zip fcols g) (length (dicts h)) h1 = (r, h2)"
    by fastforce
  from assms name arm af obtain u where r: "r = Inr u"
    by (cases r) (auto simp: observation_of_group_def Let_def dict_copy_def h1_def)
  have h2: "h2 = h\<lparr>dicts := dicts h @ [dict_update (dicts h ! arm_parameters arm)
                 (fidelity_items loads (zip fcols g))]\<rparr>"
    using apply_fidelities_Inr [OF af [unfolded r] a] by (simp add: h1_def)
  have af': "apply_fidelities loads (zip fcols g) (length (dicts h))
               (h\<lparr>dicts := dicts h @ [dicts h ! arm_parameters arm]\<rparr>)
             = (Inr u, h\<lparr>dicts := dicts h @ [dict_update (dicts h ! arm_parameters arm)
                 (fidelity_items loads (zip fcols g))]\<rparr>)"
    using af r h2 by (simp add: h1_def)
  have ne: "dicts h ! arm_parameters arm \<noteq> []"
    using assms name arm af'
    by (auto simp: observation_of_group_def Let_def dict_copy_def split: if_splits)
  have fok: "fidelities_ok loads (zip fcols g)"
    using af r by (auto intro: apply_fidelities_Inr_ok)
  show ?thesis
    using assms name arm ne fok
    by (auto simp: observation_of_group_def Let_def dict_copy_def af'
          new_ObservationFeatures_def new_ObservationData_def values1_def np_diag_def np_square_def)
qed

lemma prefix_nth: "prefix xs ys \<Longrightarrow> i < length xs \<Longrightarrow> ys ! i = xs ! i"
  by (auto simp: prefix_def nth_append)

lemma observation_of_group_extends:
  assumes "observation_of_group loads reg fcols gd h = (res, h')"
  shows "heap_extends h h'"
proof (cases res)
  case (Inr ob)
  obtain g d where gd: "gd = (g, d)" by (cases gd)
  from observation_of_group_Inr [OF assms [unfolded Inr gd]]
  show ?thesis by (auto simp: heap_extends_def)
next
  case (Inl e)
  show ?thesis
  proof (cases "map_of (zip fcols (fst gd)) ''arm_name''")
    case None
    with assms show ?thesis by (simp add: observation_of_group_def heap_extends_refl)
  next
    case (Some name)
    show ?thesis
    proof (cases "arms_by_name reg name")
      case None
      with assms Some show ?thesis by (simp add: observation_of_group_def heap_extends_refl)
    next
      case (Some arm)
      define h1 where "h1 = h\<lparr>dicts := dicts h @ [dicts h ! arm_parameters arm]\<rparr>"
      have a: "length (dicts h) < length (dicts h1)" by (simp add: h1_def)
      obtain r h2 where af: "apply_fidelities loads (zip fcols (fst gd)) (length (dicts h)) h1 = (r, h2)"
        by fastforce
      from apply_fidelities_dicts [OF af a] obtain x where
        h2: "h2 = h\<lparr>dicts := dicts h @ [x]\<rparr>" by (auto simp: h1_def)
      from assms \<open>map_of (zip fcols (fst gd)) ''arm_name'' = Some name\<close> Some af h2 Inl
      show ?thesis
        by (auto simp: observation_of_group_def Let_def dict_copy_def h1_def [symmetric]
              new_ObservationFeatures_def new_ObservationData_def heap_extends_def
              split: sum.splits option.splits if_splits prod.splits)
    qed
  qed
qed

lemma convert_groups_extends:
  "convert_groups loads reg fcols gds h = (res, h') \<Longrightarrow> heap_extends h h'"
proof (induction gds arbitrary: h res h')
  case Nil
  then show ?case by (simp add: heap_extends_refl)
next
  case (Cons gd gds)
  obtain r1 h1 where g: "observation_of_group loads reg fcols gd h = (r1, h1)" by fastforce
  have e1: "heap_extends h h1" using observation_of_group_extends [OF g] .
  show ?case
  proof (cases r1)
    case (Inl e)
    with Cons.prems g e1 show ?thesis by simp
  next
    case (Inr ob)
    obtain r2 h2 where c: "convert_groups loads reg fcols gds h1 = (r2, h2)" by fastforce
    have "heap_extends h1 h2" using Cons.IH [OF c] .
    with e1 have "heap_extends h h2" by (rule heap_extends_trans)
    moreover from Cons.prems g Inr c have "h' = h2" by (auto split: sum.splits)
    ultimately show ?thesis by simp
  qed
qed

lemma arms_by_name_ok:
  "registry_ok reg h \<Longrightarrow> arms_by_name reg name = Some arm \<Longrightarrow> arm_parameters arm < length (dicts h)"
  by (cases name) (auto simp: registry_ok_def)

lemma convert_groups_Inr:
  assumes "convert_groups loads reg fcols gds h = (Inr obs, h')" and "registry_ok reg h"
  shows "length obs = length gds
       \<and> length (dicts h') = length (dicts h) + length gds
       \<and> length (feats h') = length (feats h) + length gds
       \<and> length (datas h') = length (datas h) + length gds
       \<and> (\<forall>i<length gds. group_post loads reg fcols h (gds ! i) i (obs ! i) h')"
  using assms
proof (induction gds arbitrary: h obs h')
  case Nil
  then show ?case by auto
next
  case (Cons gd gds)
  obtain g d where gd: "gd = (g, d)" by (cases gd)
  from Cons.prems(1) obtain ob h1 where g: "observation_of_group loads reg fcols (g, d) h = (Inr ob, h1)"
    by (auto simp: gd split: sum.splits prod.splits)
  from Cons.prems(1) g obtain obs' where c: "convert_groups loads reg fcols gds h1 = (Inr obs', h')"
    and obs: "obs = ob # obs'"
    by (auto simp: gd split: sum.splits prod.splits)
  from observation_of_group_Inr [OF g] obtain name arm where
    name: "map_of (zip fcols g) ''arm_name'' = Some name"
    and arm: "arms_by_name reg name = Some arm"
    and ne: "dicts h ! arm_parameters arm \<noteq> []"
    and fok: "fidelities_ok loads (zip fcols g)"
    and ob: "ob = \<lparr>features = length (feats h), data = length (datas h), arm_name = cell_str name\<rparr>"
    and h1: "h1 = \<lparr>dicts = dicts h @ [dict_update (dicts h ! arm_parameters arm)
                                           (fidelity_items loads (zip fcols g))],
                    feats = feats h @ [\<lparr>parameters = length (dicts h),
                       trial_index = features_get (zip fcols g) ''trial_index'',
                       start_time = features_get (zip fcols g) ''start_time'',
                       end_time = features_get (zip fcols g) ''end_time'',
                       random_split = features_get (zip fcols g) ''random_split''\<rparr>],
                    datas = datas h @ [\<lparr>metric_names = map c_metric_name d,
                       means = values1 (map c_mean d),
                       covariance = np_diag (np_square (values1 (map c_sem d)))\<rparr>]\<rparr>"
    by blast
  have l1: "length (dicts h1) = Suc (length (dicts h))" "length (feats h1) = Suc (length (feats h))"
    "length (datas h1) = Suc (length (datas h))" by (simp_all add: h1)
  have ok1: "registry_ok reg h1" using Cons.prems(2) by (auto simp: registry_ok_def l1 intro: less_SucI)
  note IH = Cons.IH [OF c ok1]
  have ext: "heap_extends h1 h'" using convert_groups_extends [OF c] .
  have base: "\<And>a. a < length (dicts h) \<Longrightarrow> dicts h1 ! a = dicts h ! a"
    by (simp add: h1 nth_append)
  have p0: "group_post loads reg fcols h gd 0 ob h'"
  proof -
    have "dicts h' ! length (dicts h) = dicts h1 ! length (dicts h)"
      using ext by (intro prefix_nth) (simp_all add: heap_extends_def l1)
    moreover have "feats h' ! length (feats h) = feats h1 ! length (feats h)"
      using ext by (intro prefix_nth) (simp_all add: heap_extends_def l1)
    moreover have "datas h' ! length (datas h) = datas h1 ! length (datas h)"
      using ext by (intro prefix_nth) (simp_all add: heap_extends_def l1)
    ultimately show ?thesis
      using name arm ne fok by (simp add: group_post_def gd ob h1)
  qed
  have pS: "group_post loads reg fcols h (gds ! j) (Suc j) (obs' ! j) h'" if j: "j < length gds" for j
  proof -
    from IH j have gp: "group_post loads reg fcols h1 (gds ! j) j (obs' ! j) h'" by simp
    then obtain name' arm' where
      n': "map_of (zip fcols (fst (gds ! j))) ''arm_name'' = Some name'"
      and a': "arms_by_name reg name' = Some arm'"
      and rest: "dicts h1 ! arm_parameters arm' \<noteq> []" "arm_name (obs' ! j) = cell_str name'"
        "fidelities_ok loads (zip fcols (fst (gds ! j)))"
        "dicts h' ! (length (dicts h1) + j)
               = dict_update (dicts h1 ! arm_parameters arm')
                             (fidelity_items loads (zip fcols (fst (gds ! j))))"
      by (auto simp: group_post_def)
    have "arm_parameters arm' < length (dicts h)" using arms_by_name_ok [OF Cons.prems(2) a'] .
    then have b: "dicts h1 ! arm_parameters arm' = dicts h ! arm_parameters arm'" by (rule base)
    show ?thesis
      using gp n' a' rest b unfolding group_post_def l1 by auto
  qed
  have "\<forall>i<length (gd # gds). group_post loads reg fcols h ((gd # gds) ! i) i (obs ! i) h'"
  proof (intro allI impI)
    fix i assume "i < length (gd # gds)"
    then show "group_post loads reg fcols h ((gd # gds) ! i) i (obs ! i) h'"
      using p0 pS by (cases i) (simp_all add: obs)
  qed
  then show ?case using IH by (simp add: obs l1)
qed

lemma apply_fidelities_ok:
  "fidelities_ok loads fd \<Longrightarrow> \<exists>h'. apply_fidelities loads fd a h = (Inr (), h')"
  by (auto simp: fidelities_ok_def apply_fidelities_def split: option.splits cell.splits json.splits)

lemma observation_of_group_ok:
  assumes "group_ok loads reg fcols h g"
  shows "\<exists>ob h'. observation_of_group loads reg fcols (g, d) h = (Inr ob, h')"
proof -
  from assms obtain name arm where
    name: "map_of (zip fcols g) ''arm_name'' = Some name"
    and arm: "arms_by_name reg name = Some arm"
    and ne: "dicts h ! arm_parameters arm \<noteq> []"
    and fok: "fidelities_ok loads (zip fcols g)"
    by (auto simp: group_ok_def split: option.splits)
  from apply_fidelities_ok [OF fok] obtain h2 where
    af: "apply_fidelities loads (zip fcols g) (length (dicts h))
           (h\<lparr>dicts := dicts h @ [dicts h ! arm_parameters arm]\<rparr>) = (Inr (), h2)"
    by blast
  show ?thesis
    using name arm ne
    by (simp add: observation_of_group_def Let_def dict_copy_def af
          new_ObservationFeatures_def new_ObservationData_def values1_def np_diag_def np_square_def)
qed

lemma observation_of_group_unknown:
  "group_unknown reg fcols g \<Longrightarrow> observation_of_group loads reg fcols (g, d) h = (Inl KeyError, h)"
  by (auto simp: group_unknown_def observation_of_group_def split: option.splits)

lemma group_ok_extends:
  assumes "group_ok loads reg fcols h g" and "registry_ok reg h" and "heap_extends h h1"
  shows "group_ok loads reg fcols h1 g"
proof -
  from assms(1) obtain name arm where
    name: "map_of (zip fcols g) ''arm_name'' = Some name"
    and arm: "arms_by_name reg name = Some arm"
    and ne: "dicts h ! arm_parameters arm \<noteq> []"
    and fok: "fidelities_ok loads (zip fcols g)"
    by (auto simp: group_ok_def split: option.splits)
  have "arm_parameters arm < length (dicts h)" using arms_by_name_ok [OF assms(2) arm] .
  then have "dicts h1 ! arm_parameters arm = dicts h ! arm_parameters arm"
    using assms(3) by (intro prefix_nth) (simp_all add: heap_extends_def)
  then show ?thesis using name arm ne fok by (simp add: group_ok_def)
qed

lemma registry_ok_extends: "registry_ok reg h \<Longrightarrow> heap_extends h h1 \<Longrightarrow> registry_ok reg h1"
  by (auto simp: registry_ok_def heap_extends_def dest!: prefix_length_le) fastforce

lemma convert_groups_ok:
  assumes "\<forall>gd\<in>set gds. group_ok loads reg fcols h (fst gd)" and "registry_ok reg h"
  shows "\<exists>obs h'. convert_groups loads reg fcols gds h = (Inr obs, h')"
  using assms
proof (induction gds arbitrary: h)
  case Nil
  then show ?case by simp
next
  case (Cons gd gds)
  obtain g d where gd: "gd = (g, d)" by (cases gd)
  from Cons.prems(1) have "group_ok loads reg fcols h g" by (simp add: gd)
  from observation_of_group_ok [OF this] obtain ob h1 where
    g: "observation_of_group loads reg fcols (g, d) h = (Inr ob, h1)" by blast
  have e: "heap_extends h h1" using observation_of_group_extends [OF g] .
  have "\<forall>gd\<in>set gds. group_ok loads reg fcols h1 (fst gd)"
    using Cons.prems e by (auto intro: group_ok_extends)
  from Cons.IH [OF this registry_ok_extends [OF Cons.prems(2) e]] obtain obs h' where
    "convert_groups loads reg fcols gds h1 = (Inr obs, h')" by blast
  with g show ?case by (simp add: gd)
qed

lemma convert_groups_unknown:
  assumes "\<exists>gd\<in>set gds. group_unknown reg fcols (fst gd)"
  shows "\<exists>e h'. convert_groups loads reg fcols gds h = (Inl e, h')"
  using assms
proof (induction gds arbitrary: h)
  case Nil
  then show ?case by simp
next
  case (Cons gd gds)
  obtain g d where gd: "gd = (g, d)" by (cases gd)
  obtain r1 h1 where g: "observation_of_group loads reg fcols (g, d) h = (r1, h1)" by fastforce
  show ?case
  proof (cases r1)
    case (Inl e)
    with g show ?thesis by (simp add: gd)
  next
    case (Inr ob)
    have "\<not> group_unknown reg fcols g"
      using g Inr observation_of_group_unknown [of reg fcols g loads d h] by auto
    with Cons.prems have "\<exists>gd\<in>set gds. group_unknown reg fcols (fst gd)" by (auto simp: gd)
    from Cons.IH [OF this, of h1] obtain e h' where
      "convert_groups loads reg fcols gds h1 = (Inl e, h')" by blast
    with g Inr show ?thesis by (simp add: gd)
  qed
qed

lemma convert_groups_KeyError:
  assumes "\<exists>gd\<in>set gds. group_unknown reg fcols (fst gd)"
    and "\<forall>gd\<in>set gds. group_unknown reg fcols (fst gd) \<or> group_ok loads reg fcols h (fst gd)"
    and "registry_ok reg h"
  shows "\<exists>h'. convert_groups loads reg fcols gds h = (Inl KeyError, h')"
  using assms
proof (induction gds arbitrary: h)
  case Nil
  then show ?case by simp
next
  case (Cons gd gds)
  obtain g d where gd: "gd = (g, d)" by (cases gd)
  show ?case
  proof (cases "group_unknown reg fcols g")
    case True
    then show ?thesis by (simp add: gd observation_of_group_unknown)
  next
    case False
    with Cons.prems(2) have ok: "group_ok loads reg fcols h g" by (auto simp: gd)
    from observation_of_group_ok [OF ok] obtain ob h1 where
      g: "observation_of_group loads reg fcols (g, d) h = (Inr ob, h1)" by blast
    have e: "heap_extends h h1" using observation_of_group_extends [OF g] .
    have 1: "\<exists>gd\<in>set gds. group_unknown reg fcols (fst gd)"
      using Cons.prems(1) False by (auto simp: gd)
    have 2: "\<forall>gd\<in>set gds. group_unknown reg fcols (fst gd) \<or> group_ok loads reg fcols h1 (fst gd)"
      using Cons.prems(2,3) e by (auto intro: group_ok_extends)
    from Cons.IH [OF 1 2 registry_ok_extends [OF Cons.prems(3) e]] obtain h' where
      "convert_groups loads reg fcols gds h1 = (Inl KeyError, h')" by blast
    with g show ?thesis by (simp add: gd)
  qed
qed

lemma zip_key_of:
  "map_of (zip fcols (key_of fcols r)) c = (if c \<in> set fcols then Some (cell_of r c) else None)"
  unfolding key_of_def by (induction fcols) auto

lemma groupby_keys: "map fst (groupby fcols rs) = sort (remdups (map (key_of fcols) rs))"
  by (simp add: groupby_def comp_def)

lemma length_groupby: "length (groupby fcols rs) = card (key_of fcols ` set rs)"
  by (simp add: groupby_def length_remdups_card_conv)

lemma groupby_nth:
  "i < length (groupby fcols rs) \<Longrightarrow>
   groupby fcols rs ! i = (sort (remdups (map (key_of fcols) rs)) ! i,
      filter (\<lambda>r. key_of fcols r = sort (remdups (map (key_of fcols) rs)) ! i) rs)"
  by (simp add: groupby_def)

lemma groupby_key_mem:
  "gd \<in> set (groupby fcols rs) \<Longrightarrow> \<exists>r\<in>set rs. fst gd = key_of fcols r"
  by (auto simp: groupby_def)

lemma groupby_mem:
  "r \<in> set rs \<Longrightarrow> \<exists>gd\<in>set (groupby fcols rs). fst gd = key_of fcols r"
  by (auto simp: groupby_def intro!: bexI [where x = "key_of fcols r"])

section \<open>Properties\<close>

text \<open>
  C4. For a list of k metric names the constructor of \<open>ObservationData\<close> succeeds exactly
  when \<open>means\<close> has shape (k,) and \<open>covariance\<close> has shape (k, k). When it succeeds the new
  object holds the three arguments. When it fails, it fails with the shape error that names
  the array that failed (\<open>means\<close> is tested first), the expected and the actual shape, and
  the store is left as it was: no object is produced.
\<close>

theorem C4_constructor_shapes:
  "((\<exists>a h'. new_ObservationData mn m c h = (Inr a, h'))
      = (shape m = [length mn] \<and> shape c = [length mn, length mn]))
   \<and> (shape m = [length mn] \<and> shape c = [length mn, length mn] \<longrightarrow>
        new_ObservationData mn m c h =
          (Inr (length (datas h)),
           h\<lparr>datas := datas h @ [\<lparr>metric_names = mn, means = m, covariance = c\<rparr>]\<rparr>))
   \<and> (shape m \<noteq> [length mn] \<longrightarrow>
        new_ObservationData mn m c h
          = (Inl (ValueError_shape ''means'' [length mn] (shape m)), h))
   \<and> (shape m = [length mn] \<and> shape c \<noteq> [length mn, length mn] \<longrightarrow>
        new_ObservationData mn m c h
          = (Inl (ValueError_shape ''covariance'' [length mn, length mn] (shape c)), h))"
  by (simp add: new_ObservationData_def Let_def)

theorem C4_constructor_shapes_witness:
  "new_ObservationData [''m1'', ''m2'']
      \<lparr>shape = [2], elems = [3, 4 :: int]\<rparr> \<lparr>shape = [2, 2], elems = [1, 0, 0, 1]\<rparr>
      \<lparr>dicts = [], feats = [], datas = []\<rparr>
    = (Inr 0, \<lparr>dicts = [], feats = [],
         datas = [\<lparr>metric_names = [''m1'', ''m2''], means = \<lparr>shape = [2], elems = [3, 4]\<rparr>,
                   covariance = \<lparr>shape = [2, 2], elems = [1, 0, 0, 1]\<rparr>\<rparr>]\<rparr>)
   \<and> new_ObservationData [''m1'', ''m2'']
      \<lparr>shape = [3], elems = [3, 4, 5 :: int]\<rparr> \<lparr>shape = [2, 2], elems = [1, 0, 0, 1]\<rparr>
      \<lparr>dicts = [], feats = [], datas = []\<rparr>
    = (Inl (ValueError_shape ''means'' [2] [3]), \<lparr>dicts = [], feats = [], datas = []\<rparr>)
   \<and> new_ObservationData [''m1'', ''m2'']
      \<lparr>shape = [2], elems = [3, 4 :: int]\<rparr> \<lparr>shape = [4], elems = [1, 0, 0, 1]\<rparr>
      \<lparr>dicts = [], feats = [], datas = []\<rparr>
    = (Inl (ValueError_shape ''covariance'' [2, 2] [4]), \<lparr>dicts = [], feats = [], datas = []\<rparr>)"
  using C4_constructor_shapes [of "[''m1'', ''m2'']" "\<lparr>shape = [2], elems = [3, 4 :: int]\<rparr>"
          "\<lparr>shape = [2, 2], elems = [1, 0, 0, 1]\<rparr>" "\<lparr>dicts = [], feats = [], datas = []\<rparr>"]
        C4_constructor_shapes [of "[''m1'', ''m2'']" "\<lparr>shape = [3], elems = [3, 4, 5 :: int]\<rparr>"
          "\<lparr>shape = [2, 2], elems = [1, 0, 0, 1]\<rparr>" "\<lparr>dicts = [], feats = [], datas = []\<rparr>"]
        C4_constructor_shapes [of "[''m1'', ''m2'']" "\<lparr>shape = [2], elems = [3, 4 :: int]\<rparr>"
          "\<lparr>shape = [4], elems = [1, 0, 0, 1]\<rparr>" "\<lparr>dicts = [], feats = [], datas = []\<rparr>"]
  by simp

text \<open>
  C3. \<open>update_features\<close> called on the object \<open>self\<close> (A) with \<open>new_features\<close> (B), both
  in a store where A and its dict exist and the dict of B is well formed. The call returns
  the address of A itself. A keeps its dict object, and that dict afterwards maps every key
  of B's dict to B's value and every other key to what it mapped to before: every entry of B
  is written, a key of both is overwritten, a new key is added, and no key of A is removed.
  Each of the four context fields of A is B's value when B's field is set and unchanged when
  it is unset. Nothing else in the store changes.
\<close>

theorem C3_update_features:
  assumes "self < length (feats h)"
    and "parameters (feats h ! self) < length (dicts h)"
    and "distinct (map fst (dicts h ! parameters (feats h ! new_features)))"
  shows "let A = feats h ! self; B = feats h ! new_features;
             r = fst (update_features self new_features h);
             h' = snd (update_features self new_features h);
             A' = feats h' ! self
         in r = self
          \<and> parameters A' = parameters A
          \<and> map_of (dicts h' ! parameters A)
              = map_of (dicts h ! parameters A) ++ map_of (dicts h ! parameters B)
          \<and> fst ` set (dicts h ! parameters A) \<subseteq> fst ` set (dicts h' ! parameters A)
          \<and> trial_index A' = (case trial_index B of None \<Rightarrow> trial_index A | Some v \<Rightarrow> Some v)
          \<and> start_time A' = (case start_time B of None \<Rightarrow> start_time A | Some v \<Rightarrow> Some v)
          \<and> end_time A' = (case end_time B of None \<Rightarrow> end_time A | Some v \<Rightarrow> Some v)
          \<and> random_split A' = (case random_split B of None \<Rightarrow> random_split A | Some v \<Rightarrow> Some v)
          \<and> length (dicts h') = length (dicts h)
          \<and> (\<forall>a. a \<noteq> parameters A \<longrightarrow> dicts h' ! a = dicts h ! a)
          \<and> length (feats h') = length (feats h)
          \<and> (\<forall>a. a \<noteq> self \<longrightarrow> feats h' ! a = feats h ! a)
          \<and> datas h' = datas h"
  using assms
  apply (simp add: Let_def update_features_def set_trial_index_def set_start_time_def set_end_time_def set_random_split_def map_of_dict_update keys_dict_update)
  apply (auto simp: nth_list_update split: option.splits)
  done

theorem C3_update_features_witness:
  "update_features 0 1
     (\<lparr>dicts = [[(''x'', PInt 1), (''y'', PInt 2)], [(''y'', PInt 7), (''z'', PBool True)]],
       feats = [\<lparr>parameters = 0, trial_index = Some 1, start_time = None,
                  end_time = Some 5, random_split = None\<rparr>,
                \<lparr>parameters = 1, trial_index = None, start_time = Some 3,
                  end_time = Some 9, random_split = None\<rparr>],
       datas = []\<rparr> :: int heap)
   = (0, \<lparr>dicts = [[(''x'', PInt 1), (''y'', PInt 7), (''z'', PBool True)],
                    [(''y'', PInt 7), (''z'', PBool True)]],
       feats = [\<lparr>parameters = 0, trial_index = Some 1, start_time = Some 3,
                  end_time = Some 9, random_split = None\<rparr>,
                \<lparr>parameters = 1, trial_index = None, start_time = Some 3,
                  end_time = Some 9, random_split = None\<rparr>],
       datas = []\<rparr>)
   \<and> map_of [(''x'', PInt 1), (''y'', PInt 7), (''z'', PBool True)]
       = map_of [(''x'', PInt 1 :: int pval), (''y'', PInt 2)] ++ map_of [(''y'', PInt 7), (''z'', PBool True)]"
  using C3_update_features [of 0
     "\<lparr>dicts = [[(''x'', PInt 1), (''y'', PInt 2)], [(''y'', PInt 7), (''z'', PBool True)]],
       feats = [\<lparr>parameters = 0, trial_index = Some 1, start_time = None,
                  end_time = Some 5, random_split = None\<rparr>,
                \<lparr>parameters = 1, trial_index = None, start_time = Some 3,
                  end_time = Some 9, random_split = None\<rparr>],
       datas = []\<rparr> :: int heap" 1]
  by (simp add: update_features_def dict_update_def set_start_time_def set_end_time_def Let_def)

lemma coerce_not_numpy: "coerce v \<noteq> PInt64 n" "coerce v \<noteq> PFloat32 x"
  by (cases v; simp)+

lemma coerce_numpy_values:
  assumes "distinct (map fst d)" and "(k, v) \<in> set (coerce_numpy d)"
  shows "\<exists>v'. v = coerce v'"
proof -
  have "distinct (map fst (coerce_numpy d))" using assms(1) by (simp add: map_fst_coerce_numpy)
  with assms(2) have "map_of (coerce_numpy d) k = Some v" by simp
  then have "map_option coerce (map_of d k) = Some v"
    using assms(1) by (simp add: map_of_coerce_numpy)
  then show ?thesis by auto
qed

lemma dumps_value_Inr:
  "\<forall>n. v \<noteq> PInt64 n \<Longrightarrow> \<forall>x. v \<noteq> PFloat32 x \<Longrightarrow> \<exists>s. dumps_value enc v = Inr s"
  by (cases v) auto

lemma dumps_items_Inr:
  "\<forall>(k, v)\<in>set d. \<exists>s. dumps_value enc v = Inr s \<Longrightarrow> \<exists>ss. dumps_items enc d = Inr ss"
  by (induction d) auto

lemma json_dumps_coerced_Inr:
  assumes "distinct (map fst d)"
  shows "\<exists>s. json_dumps enc (coerce_numpy d) = Inr s"
proof -
  have "\<forall>(k, v)\<in>set (sort_key fst (coerce_numpy d)). \<exists>s. dumps_value enc v = Inr s"
  proof (clarify)
    fix k v assume "(k, v) \<in> set (sort_key fst (coerce_numpy d))"
    then have "(k, v) \<in> set (coerce_numpy d)" by simp
    from coerce_numpy_values [OF assms this] obtain v' where "v = coerce v'" ..
    then show "\<exists>s. dumps_value enc v = Inr s"
      by (intro dumps_value_Inr) (simp_all add: coerce_not_numpy)
  qed
  from dumps_items_Inr [OF this] show ?thesis by (auto simp: json_dumps_def)
qed

text \<open>
  C8. Two \<open>ObservationFeatures\<close> objects whose dicts are well formed and hold the same
  key/value pairs, in whatever insertion orders, and whose four context fields are equal:
  \<open>__hash__\<close> returns a number for each of them, raising nothing, and the two numbers are
  the same; and the two objects are equal.
\<close>

theorem C8_hash_insertion_order:
  assumes "distinct (map fst (dicts h ! parameters (feats h ! a)))"
    and "distinct (map fst (dicts h ! parameters (feats h ! b)))"
    and "set (dicts h ! parameters (feats h ! a)) = set (dicts h ! parameters (feats h ! b))"
    and "trial_index (feats h ! a) = trial_index (feats h ! b)"
    and "start_time (feats h ! a) = start_time (feats h ! b)"
    and "end_time (feats h ! a) = end_time (feats h ! b)"
    and "random_split (feats h ! a) = random_split (feats h ! b)"
  shows "(\<exists>n. features_hash enc py_hash a h = Inr n \<and> features_hash enc py_hash b h = Inr n)
       \<and> features_eq enc a b h"
proof -
  have eq: "json_dumps enc (coerce_numpy (dicts h ! parameters (feats h ! a)))
      = json_dumps enc (coerce_numpy (dicts h ! parameters (feats h ! b)))"
    using assms(1-3) by (rule json_dumps_order)
  from json_dumps_coerced_Inr [OF assms(1)] obtain s where
    s: "json_dumps enc (coerce_numpy (dicts h ! parameters (feats h ! a))) = Inr s" by blast
  with eq have s': "json_dumps enc (coerce_numpy (dicts h ! parameters (feats h ! b))) = Inr s"
    by simp
  show ?thesis
    using assms(4-7) s s' by (simp add: features_hash_def features_eq_def Let_def)
qed

theorem C8_hash_insertion_order_witness:
  "features_hash \<lparr>enc_string = (\<lambda>s. ''<'' @ s @ ''>''), enc_int = (\<lambda>n. ''i''), enc_float = (\<lambda>x. ''f'')\<rparr>
     (\<lambda>k. int (length (fst k))) 0
     (\<lparr>dicts = [[(''x'', PInt64 1), (''y'', PStr ''a'')], [(''y'', PStr ''a''), (''x'', PInt64 1)]],
       feats = [\<lparr>parameters = 0, trial_index = Some 2, start_time = None,
                  end_time = None, random_split = Some 0\<rparr>,
                \<lparr>parameters = 1, trial_index = Some 2, start_time = None,
                  end_time = None, random_split = Some 0\<rparr>],
       datas = []\<rparr> :: int heap)
    = Inr 18
   \<and> features_hash \<lparr>enc_string = (\<lambda>s. ''<'' @ s @ ''>''), enc_int = (\<lambda>n. ''i''), enc_float = (\<lambda>x. ''f'')\<rparr>
     (\<lambda>k. int (length (fst k))) 1
     (\<lparr>dicts = [[(''x'', PInt64 1), (''y'', PStr ''a'')], [(''y'', PStr ''a''), (''x'', PInt64 1)]],
       feats = [\<lparr>parameters = 0, trial_index = Some 2, start_time = None,
                  end_time = None, random_split = Some 0\<rparr>,
                \<lparr>parameters = 1, trial_index = Some 2, start_time = None,
                  end_time = None, random_split = Some 0\<rparr>],
       datas = []\<rparr> :: int heap)
    = Inr 18
   \<and> features_eq \<lparr>enc_string = (\<lambda>s. ''<'' @ s @ ''>''), enc_int = (\<lambda>n. ''i''), enc_float = (\<lambda>x. ''f'')\<rparr> 0 1
     (\<lparr>dicts = [[(''x'', PInt64 1), (''y'', PStr ''a'')], [(''y'', PStr ''a''), (''x'', PInt64 1)]],
       feats = [\<lparr>parameters = 0, trial_index = Some 2, start_time = None,
                  end_time = None, random_split = Some 0\<rparr>,
                \<lparr>parameters = 1, trial_index = Some 2, start_time = None,
                  end_time = None, random_split = Some 0\<rparr>],
       datas = []\<rparr> :: int heap)"
proof -
  let ?enc = "\<lparr>enc_string = (\<lambda>s. ''<'' @ s @ ''>''), enc_int = (\<lambda>n. ''i''), enc_float = (\<lambda>x. ''f'')\<rparr>"
  let ?hash = "(\<lambda>k. int (length (fst k))) :: hash_key \<Rightarrow> int"
  let ?h = "(\<lparr>dicts = [[(''x'', PInt64 1), (''y'', PStr ''a'')], [(''y'', PStr ''a''), (''x'', PInt64 1)]],
       feats = [\<lparr>parameters = 0, trial_index = Some 2, start_time = None,
                  end_time = None, random_split = Some 0\<rparr>,
                \<lparr>parameters = 1, trial_index = Some 2, start_time = None,
                  end_time = None, random_split = Some 0\<rparr>],
       datas = []\<rparr> :: int heap)"
  have ev: "features_hash ?enc ?hash 0 ?h = Inr 18"
    by (simp add: features_hash_def coerce_numpy_def coerce_item_def json_dumps_def Let_def)
  have "(\<exists>n. features_hash ?enc ?hash 0 ?h = Inr n \<and> features_hash ?enc ?hash 1 ?h = Inr n)
       \<and> features_eq ?enc 0 1 ?h"
    by (rule C8_hash_insertion_order) auto
  with ev show ?thesis by auto
qed

lemma from_arm_result:
  "from_arm arm ti st et rs h =
     (length (feats h),
      h\<lparr>dicts := dicts h @ [dicts h ! arm_parameters arm],
        feats := feats h @ [\<lparr>parameters = length (dicts h), trial_index = ti, start_time = st,
                               end_time = et, random_split = rs\<rparr>]\<rparr>)"
  by (simp add: from_arm_def read_parameters_def dict_copy_def new_ObservationFeatures_def)

text \<open>
  C2. \<open>from_arm\<close> for an arm whose dict is in the store, with any four context values
  (\<open>None\<close> for one that is not supplied). The result is a new \<open>ObservationFeatures\<close> object
  whose four context fields are the supplied values and whose \<open>parameters\<close> is a dict
  object that was not in the store before, so not the arm's, with the items of the arm's
  dict. Every object of the old store is unchanged. An assignment into the parameters of
  the result leaves the arm's dict as it was, and an assignment into any dict of the old
  store, the arm's among them, leaves the parameters of the result as they were.
\<close>

theorem C2_from_arm_fresh_copy:
  assumes "arm_parameters arm < length (dicts h)"
  shows "(let f = fst (from_arm arm ti st et rs h);
              h' = snd (from_arm arm ti st et rs h);
              p = parameters (feats h' ! f)
          in heap_extends h h'
           \<and> length (feats h) \<le> f \<and> f < length (feats h')
           \<and> length (dicts h) \<le> p \<and> p < length (dicts h')
           \<and> p \<noteq> arm_parameters arm
           \<and> dicts h' ! p = dicts h ! arm_parameters arm
           \<and> dicts h' ! arm_parameters arm = dicts h ! arm_parameters arm
           \<and> trial_index (feats h' ! f) = ti
           \<and> start_time (feats h' ! f) = st
           \<and> end_time (feats h' ! f) = et
           \<and> random_split (feats h' ! f) = rs
           \<and> (\<forall>k v. dicts (heap_setitem p k v h') ! arm_parameters arm
                      = dicts h ! arm_parameters arm)
           \<and> (\<forall>q k v. q < length (dicts h) \<longrightarrow>
                  dicts (heap_setitem q k v h') ! p = dicts h' ! p))"
  using assms
  by (simp add: from_arm_result Let_def heap_extends_def heap_setitem_def nth_append)

theorem C2_from_arm_fresh_copy_witness:
  "from_arm \<lparr>arm_parameters = 0\<rparr> (Some 3) None None None
      (\<lparr>dicts = [[(''x'', PInt 1)]], feats = [], datas = []\<rparr> :: int heap)
    = (0, \<lparr>dicts = [[(''x'', PInt 1)], [(''x'', PInt 1)]],
           feats = [\<lparr>parameters = 1, trial_index = Some 3, start_time = None,
                      end_time = None, random_split = None\<rparr>],
           datas = []\<rparr>)
   \<and> dicts (heap_setitem 1 ''x'' (PInt 9)
        (snd (from_arm \<lparr>arm_parameters = 0\<rparr> (Some 3) None None None
          (\<lparr>dicts = [[(''x'', PInt 1)]], feats = [], datas = []\<rparr> :: int heap)))) ! 0
    = [(''x'', PInt 1)]"
proof -
  let ?h = "\<lparr>dicts = [[(''x'', PInt 1)]], feats = [], datas = []\<rparr> :: int heap"
  let ?arm = "\<lparr>arm_parameters = 0\<rparr>"
  have v: "arm_parameters ?arm < length (dicts ?h)" by simp
  have ev: "from_arm ?arm (Some 3) None None None ?h
    = (0, \<lparr>dicts = [[(''x'', PInt 1)], [(''x'', PInt 1)]],
           feats = [\<lparr>parameters = 1, trial_index = Some 3, start_time = None,
                      end_time = None, random_split = None\<rparr>],
           datas = []\<rparr>)"
    by (simp add: from_arm_def read_parameters_def dict_copy_def new_ObservationFeatures_def)
  have p: "parameters (feats (snd (from_arm ?arm (Some 3) None None None ?h))
             ! fst (from_arm ?arm (Some 3) None None None ?h)) = 1"
    by (simp add: ev)
  from C2_from_arm_fresh_copy [OF v, of "Some 3" None None None, unfolded Let_def p]
  have "dicts (heap_setitem 1 ''x'' (PInt 9) (snd (from_arm ?arm (Some 3) None None None ?h)))
          ! arm_parameters ?arm = dicts ?h ! arm_parameters ?arm"
    by blast
  then show ?thesis using ev by simp
qed

lemma upt_Suc_shift: "[0..<Suc n] = 0 # map Suc [0..<n]"
  by (simp add: upt_conv_Cons map_Suc_upt del: upt_Suc)

lemma map_heap_deepcopy_data:
  "\<forall>a\<in>set as. a < length (datas h) \<Longrightarrow>
   map_heap deepcopy_data as h
     = ([length (datas h)..<length (datas h) + length as],
        h\<lparr>datas := datas h @ map (\<lambda>a. datas h ! a) as\<rparr>)"
proof (induction as arbitrary: h)
  case Nil
  then show ?case by simp
next
  case (Cons a as)
  define h1 where "h1 = h\<lparr>datas := datas h @ [datas h ! a]\<rparr>"
  have v1: "\<forall>a\<in>set as. a < length (datas h1)" using Cons.prems by (auto simp: h1_def)
  have m: "map (\<lambda>a. datas h1 ! a) as = map (\<lambda>a. datas h ! a) as"
    using Cons.prems by (auto simp: h1_def nth_append)
  have "map_heap deepcopy_data (a # as) h
      = (length (datas h) # [length (datas h1)..<length (datas h1) + length as],
         h1\<lparr>datas := datas h1 @ map (\<lambda>a. datas h1 ! a) as\<rparr>)"
    by (simp add: deepcopy_data_def h1_def [symmetric] Cons.IH [OF v1])
  also have "\<dots> = ([length (datas h)..<length (datas h) + length (a # as)],
         h\<lparr>datas := datas h @ map (\<lambda>a. datas h ! a) (a # as)\<rparr>)"
    unfolding m by (simp add: h1_def upt_conv_Cons del: upt_Suc)
  finally show ?case .
qed

lemma map_heap_deepcopy_features:
  "\<forall>a\<in>set as. a < length (feats h) \<and> parameters (feats h ! a) < length (dicts h) \<Longrightarrow>
   map_heap deepcopy_features as h
     = ([length (feats h)..<length (feats h) + length as],
        h\<lparr>dicts := dicts h @ map (\<lambda>a. dicts h ! parameters (feats h ! a)) as,
          feats := feats h @ map (\<lambda>i. (feats h ! (as ! i))\<lparr>parameters := length (dicts h) + i\<rparr>)
                                 [0..<length as]\<rparr>)"
proof (induction as arbitrary: h)
  case Nil
  then show ?case by simp
next
  case (Cons a as)
  define h1 where "h1 = h\<lparr>dicts := dicts h @ [dicts h ! parameters (feats h ! a)],
                          feats := feats h @ [(feats h ! a)\<lparr>parameters := length (dicts h)\<rparr>]\<rparr>"
  have d1: "deepcopy_features a h = (length (feats h), h1)"
    by (simp add: deepcopy_features_def dict_copy_def h1_def Let_def)
  have v1: "\<forall>a\<in>set as. a < length (feats h1) \<and> parameters (feats h1 ! a) < length (dicts h1)"
    using Cons.prems by (auto simp: h1_def nth_append)
  have f1: "\<And>b. b \<in> set as \<Longrightarrow> feats h1 ! b = feats h ! b"
    using Cons.prems by (auto simp: h1_def nth_append)
  have m1: "map (\<lambda>a. dicts h1 ! parameters (feats h1 ! a)) as
          = map (\<lambda>a. dicts h ! parameters (feats h ! a)) as"
    using Cons.prems by (auto simp: h1_def nth_append)
  have m2: "map (\<lambda>i. (feats h1 ! (as ! i))\<lparr>parameters := length (dicts h1) + i\<rparr>) [0..<length as]
          = map (\<lambda>i. (feats h ! ((a # as) ! Suc i))\<lparr>parameters := length (dicts h) + Suc i\<rparr>)
                [0..<length as]"
    using f1 by (auto simp: h1_def)
  have "map_heap deepcopy_features (a # as) h
      = (length (feats h) # [length (feats h1)..<length (feats h1) + length as],
         h1\<lparr>dicts := dicts h1 @ map (\<lambda>a. dicts h1 ! parameters (feats h1 ! a)) as,
          feats := feats h1 @ map (\<lambda>i. (feats h1 ! (as ! i))\<lparr>parameters := length (dicts h1) + i\<rparr>)
                                 [0..<length as]\<rparr>)"
    by (simp add: d1 Cons.IH [OF v1])
  also have "\<dots> = ([length (feats h)..<length (feats h) + length (a # as)],
        h\<lparr>dicts := dicts h @ map (\<lambda>a. dicts h ! parameters (feats h ! a)) (a # as),
          feats := feats h @ map (\<lambda>i. (feats h ! ((a # as) ! i))\<lparr>parameters := length (dicts h) + i\<rparr>)
                                 [0..<length (a # as)]\<rparr>)"
    unfolding m1 m2
    by (simp add: h1_def upt_conv_Cons [of "length (feats h)"] upt_Suc_shift comp_def del: upt_Suc)
  finally show ?case .
qed

lemma separate_observations_copy:
  assumes "\<forall>ob\<in>set obs. features ob < length (feats h)
              \<and> parameters (feats h ! features ob) < length (dicts h)
              \<and> data ob < length (datas h)"
  shows "separate_observations obs True h
     = (([length (feats h)..<length (feats h) + length obs],
         [length (datas h)..<length (datas h) + length obs]),
        \<lparr>dicts = dicts h @ map (\<lambda>ob. dicts h ! parameters (feats h ! features ob)) obs,
         feats = feats h @ map (\<lambda>i. (feats h ! features (obs ! i))\<lparr>parameters := length (dicts h) + i\<rparr>)
                                [0..<length obs],
         datas = datas h @ map (\<lambda>ob. datas h ! data ob) obs\<rparr>)"
proof -
  have 1: "\<forall>a\<in>set (map features obs). a < length (feats h) \<and> parameters (feats h ! a) < length (dicts h)"
    using assms by auto
  define h1 where "h1 = h\<lparr>dicts := dicts h @ map (\<lambda>a. dicts h ! parameters (feats h ! a)) (map features obs),
          feats := feats h @ map (\<lambda>i. (feats h ! (map features obs ! i))\<lparr>parameters := length (dicts h) + i\<rparr>)
                                 [0..<length (map features obs)]\<rparr>"
  have 2: "\<forall>a\<in>set (map data obs). a < length (datas h1)"
    using assms by (auto simp: h1_def)
  have f: "map_heap deepcopy_features (map features obs) h
      = ([length (feats h)..<length (feats h) + length obs], h1)"
    using map_heap_deepcopy_features [OF 1] by (simp only: h1_def length_map)
  have d: "map_heap deepcopy_data (map data obs) h1
      = ([length (datas h1)..<length (datas h1) + length obs],
         h1\<lparr>datas := datas h1 @ map (\<lambda>a. datas h1 ! a) (map data obs)\<rparr>)"
    using map_heap_deepcopy_data [OF 2] by (simp only: length_map)
  have "separate_observations obs True h
      = (([length (feats h)..<length (feats h) + length obs],
          [length (datas h1)..<length (datas h1) + length obs]),
         h1\<lparr>datas := datas h1 @ map (\<lambda>a. datas h1 ! a) (map data obs)\<rparr>)"
    by (simp add: separate_observations_def f d)
  also have "\<dots> = (([length (feats h)..<length (feats h) + length obs],
         [length (datas h)..<length (datas h) + length obs]),
        \<lparr>dicts = dicts h @ map (\<lambda>ob. dicts h ! parameters (feats h ! features ob)) obs,
         feats = feats h @ map (\<lambda>i. (feats h ! features (obs ! i))\<lparr>parameters := length (dicts h) + i\<rparr>)
                                [0..<length obs],
         datas = datas h @ map (\<lambda>ob. datas h ! data ob) obs\<rparr>)"
    by (simp add: h1_def comp_def)
  finally show ?thesis .
qed

text \<open>
  C7. \<open>separate_observations\<close> on a list of observations whose objects exist in the store.
  Without the copy flag the two returned lists are the addresses held by the observations,
  in order, and the store is unchanged: the returned elements are the very same objects, so
  an assignment into the dict of a returned element is an assignment into the dict of the
  input's element. With the copy flag both lists have the length of the input; element i of
  each is a new object (its address is beyond every address of the old store, and the
  addresses differ from one another), the new \<open>ObservationFeatures\<close> object refers to a new
  dict, and the new objects have the contents of the originals; every old object is left
  as it was. An assignment into the dict of a returned element leaves the dict of every
  input element as it was, and an assignment into the dict of an input element leaves the
  dict of every returned element as it was.
\<close>

theorem C7_separate_observations:
  assumes "\<forall>ob\<in>set obs. features ob < length (feats h)
              \<and> parameters (feats h ! features ob) < length (dicts h)
              \<and> data ob < length (datas h)"
  shows "separate_observations obs False h = ((map features obs, map data obs), h)
   \<and> (\<forall>i<length obs. \<forall>k v.
         dicts (heap_setitem (parameters (feats h ! (map features obs ! i))) k v h)
             ! parameters (feats h ! features (obs ! i))
           = setitem (dicts h ! parameters (feats h ! features (obs ! i))) k v)
   \<and> (let fs = fst (fst (separate_observations obs True h));
           ds = snd (fst (separate_observations obs True h));
           h' = snd (separate_observations obs True h)
       in length fs = length obs \<and> length ds = length obs
        \<and> heap_extends h h'
        \<and> distinct fs \<and> distinct ds
        \<and> (\<forall>i<length obs.
              length (feats h) \<le> fs ! i \<and> fs ! i < length (feats h')
            \<and> length (datas h) \<le> ds ! i \<and> ds ! i < length (datas h')
            \<and> parameters (feats h' ! (fs ! i)) = length (dicts h) + i
            \<and> parameters (feats h' ! (fs ! i)) < length (dicts h')
            \<and> dicts h' ! parameters (feats h' ! (fs ! i))
                = dicts h ! parameters (feats h ! features (obs ! i))
            \<and> trial_index (feats h' ! (fs ! i)) = trial_index (feats h ! features (obs ! i))
            \<and> start_time (feats h' ! (fs ! i)) = start_time (feats h ! features (obs ! i))
            \<and> end_time (feats h' ! (fs ! i)) = end_time (feats h ! features (obs ! i))
            \<and> random_split (feats h' ! (fs ! i)) = random_split (feats h ! features (obs ! i))
            \<and> datas h' ! (ds ! i) = datas h ! data (obs ! i)
            \<and> (\<forall>k v j. j < length obs \<longrightarrow>
                  dicts (heap_setitem (parameters (feats h' ! (fs ! i))) k v h')
                      ! parameters (feats h' ! features (obs ! j))
                    = dicts h ! parameters (feats h ! features (obs ! j)))
            \<and> (\<forall>k v j. j < length obs \<longrightarrow>
                  dicts (heap_setitem (parameters (feats h' ! features (obs ! i))) k v h')
                      ! parameters (feats h' ! (fs ! j))
                    = dicts h' ! parameters (feats h' ! (fs ! j)))))"
proof -
  have nc: "separate_observations obs False h = ((map features obs, map data obs), h)"
    by (simp add: separate_observations_def)
  have shared: "\<forall>i<length obs. \<forall>k v.
         dicts (heap_setitem (parameters (feats h ! (map features obs ! i))) k v h)
             ! parameters (feats h ! features (obs ! i))
           = setitem (dicts h ! parameters (feats h ! features (obs ! i))) k v"
    using assms by (simp add: heap_setitem_def)
  have v: "\<And>i. i < length obs \<Longrightarrow> features (obs ! i) < length (feats h)
              \<and> parameters (feats h ! features (obs ! i)) < length (dicts h)
              \<and> data (obs ! i) < length (datas h)"
    using assms by simp
  note c = separate_observations_copy [OF assms]
  have ne: "\<And>i j. j < length obs \<Longrightarrow> length (dicts h) + i \<noteq> parameters (feats h ! features (obs ! j))"
    "\<And>i j. j < length obs \<Longrightarrow> parameters (feats h ! features (obs ! j)) \<noteq> length (dicts h) + i"
    using v by (metis not_add_less1)+
  show ?thesis
    unfolding Let_def c fst_conv snd_conv
    apply (intro conjI nc shared allI impI)
                    apply (simp_all add: v ne heap_extends_def heap_setitem_def nth_append)
    done
qed

theorem C7_separate_observations_witness:
  "separate_observations
      [\<lparr>features = 0, data = 0, arm_name = Some ''a''\<rparr>,
       \<lparr>features = 1, data = 1, arm_name = Some ''b''\<rparr>] False
      (\<lparr>dicts = [[(''x'', PInt 1)], [(''x'', PInt 2)]],
        feats = [\<lparr>parameters = 0, trial_index = Some 0, start_time = None,
                   end_time = None, random_split = None\<rparr>,
                 \<lparr>parameters = 1, trial_index = Some 1, start_time = None,
                   end_time = None, random_split = None\<rparr>],
        datas = [\<lparr>metric_names = [''m''], means = \<lparr>shape = [1], elems = [3]\<rparr>,
                   covariance = \<lparr>shape = [1, 1], elems = [4]\<rparr>\<rparr>,
                 \<lparr>metric_names = [''m''], means = \<lparr>shape = [1], elems = [5]\<rparr>,
                   covariance = \<lparr>shape = [1, 1], elems = [9]\<rparr>\<rparr>]\<rparr> :: int heap)
    = (([0, 1], [0, 1]),
      (\<lparr>dicts = [[(''x'', PInt 1)], [(''x'', PInt 2)]],
        feats = [\<lparr>parameters = 0, trial_index = Some 0, start_time = None,
                   end_time = None, random_split = None\<rparr>,
                 \<lparr>parameters = 1, trial_index = Some 1, start_time = None,
                   end_time = None, random_split = None\<rparr>],
        datas = [\<lparr>metric_names = [''m''], means = \<lparr>shape = [1], elems = [3]\<rparr>,
                   covariance = \<lparr>shape = [1, 1], elems = [4]\<rparr>\<rparr>,
                 \<lparr>metric_names = [''m''], means = \<lparr>shape = [1], elems = [5]\<rparr>,
                   covariance = \<lparr>shape = [1, 1], elems = [9]\<rparr>\<rparr>]\<rparr> :: int heap))
   \<and> fst (separate_observations
      [\<lparr>features = 0, data = 0, arm_name = Some ''a''\<rparr>,
       \<lparr>features = 1, data = 1, arm_name = Some ''b''\<rparr>] True
      (\<lparr>dicts = [[(''x'', PInt 1)], [(''x'', PInt 2)]],
        feats = [\<lparr>parameters = 0, trial_index = Some 0, start_time = None,
                   end_time = None, random_split = None\<rparr>,
                 \<lparr>parameters = 1, trial_index = Some 1, start_time = None,
                   end_time = None, random_split = None\<rparr>],
        datas = [\<lparr>metric_names = [''m''], means = \<lparr>shape = [1], elems = [3]\<rparr>,
                   covariance = \<lparr>shape = [1, 1], elems = [4]\<rparr>\<rparr>,
                 \<lparr>metric_names = [''m''], means = \<lparr>shape = [1], elems = [5]\<rparr>,
                   covariance = \<lparr>shape = [1, 1], elems = [9]\<rparr>\<rparr>]\<rparr> :: int heap))
    = ([2, 3], [2, 3])
   \<and> dicts (snd (separate_observations
      [\<lparr>features = 0, data = 0, arm_name = Some ''a''\<rparr>,
       \<lparr>features = 1, data = 1, arm_name = Some ''b''\<rparr>] True
      (\<lparr>dicts = [[(''x'', PInt 1)], [(''x'', PInt 2)]],
        feats = [\<lparr>parameters = 0, trial_index = Some 0, start_time = None,
                   end_time = None, random_split = None\<rparr>,
                 \<lparr>parameters = 1, trial_index = Some 1, start_time = None,
                   end_time = None, random_split = None\<rparr>],
        datas = [\<lparr>metric_names = [''m''], means = \<lparr>shape = [1], elems = [3]\<rparr>,
                   covariance = \<lparr>shape = [1, 1], elems = [4]\<rparr>\<rparr>,
                 \<lparr>metric_names = [''m''], means = \<lparr>shape = [1], elems = [5]\<rparr>,
                   covariance = \<lparr>shape = [1, 1], elems = [9]\<rparr>\<rparr>]\<rparr> :: int heap)))
    = [[(''x'', PInt 1)], [(''x'', PInt 2)], [(''x'', PInt 1)], [(''x'', PInt 2)]]
   \<and> map parameters (feats (snd (separate_observations
      [\<lparr>features = 0, data = 0, arm_name = Some ''a''\<rparr>,
       \<lparr>features = 1, data = 1, arm_name = Some ''b''\<rparr>] True
      (\<lparr>dicts = [[(''x'', PInt 1)], [(''x'', PInt 2)]],
        feats = [\<lparr>parameters = 0, trial_index = Some 0, start_time = None,
                   end_time = None, random_split = None\<rparr>,
                 \<lparr>parameters = 1, trial_index = Some 1, start_time = None,
                   end_time = None, random_split = None\<rparr>],
        datas = [\<lparr>metric_names = [''m''], means = \<lparr>shape = [1], elems = [3]\<rparr>,
                   covariance = \<lparr>shape = [1, 1], elems = [4]\<rparr>\<rparr>,
                 \<lparr>metric_names = [''m''], means = \<lparr>shape = [1], elems = [5]\<rparr>,
                   covariance = \<lparr>shape = [1, 1], elems = [9]\<rparr>\<rparr>]\<rparr> :: int heap))))
    = [0, 1, 2, 3]"
  using C7_separate_observations [of
      "[\<lparr>features = 0, data = 0, arm_name = Some ''a''\<rparr>,
       \<lparr>features = 1, data = 1, arm_name = Some ''b''\<rparr>]"
      "(\<lparr>dicts = [[(''x'', PInt 1)], [(''x'', PInt 2)]],
        feats = [\<lparr>parameters = 0, trial_index = Some 0, start_time = None,
                   end_time = None, random_split = None\<rparr>,
                 \<lparr>parameters = 1, trial_index = Some 1, start_time = None,
                   end_time = None, random_split = None\<rparr>],
        datas = [\<lparr>metric_names = [''m''], means = \<lparr>shape = [1], elems = [3]\<rparr>,
                   covariance = \<lparr>shape = [1, 1], elems = [4]\<rparr>\<rparr>,
                 \<lparr>metric_names = [''m''], means = \<lparr>shape = [1], elems = [5]\<rparr>,
                   covariance = \<lparr>shape = [1, 1], elems = [9]\<rparr>\<rparr>]\<rparr> :: int heap)"]
  by (simp add: separate_observations_def deepcopy_features_def deepcopy_data_def dict_copy_def
        Let_def)

lemma length_concat_rows:
  "length (concat (map (\<lambda>i. map (f i) [0..<n]) [0..<m])) = m * n"
  by (induction m) simp_all

lemma concat_rows_nth:
  "i < m \<Longrightarrow> j < n \<Longrightarrow> concat (map (\<lambda>i. map (f i) [0..<n]) [0..<m]) ! (i * n + j) = f i j"
proof (induction m)
  case 0
  then show ?case by simp
next
  case (Suc m)
  show ?case
  proof (cases "i < m")
    case True
    then have "Suc i \<le> m" by simp
    then have "Suc i * n \<le> m * n" by (rule mult_le_mono1)
    with Suc.prems(2) have "i * n + j < m * n" by simp
    with Suc.IH [OF True Suc.prems(2)] show ?thesis
      by (simp add: nth_append length_concat_rows)
  next
    case False
    with Suc.prems(1) have "i = m" by simp
    with Suc.prems(2) show ?thesis by (simp add: nth_append length_concat_rows)
  qed
qed

lemma np_diag_square:
  "shape (np_diag (np_square (values1 xs))) = [length xs, length xs]"
  "i < length xs \<Longrightarrow> j < length xs \<Longrightarrow>
     at2 (np_diag (np_square (values1 xs))) i j = (if i = j then xs ! i * xs ! i else 0)"
  by (simp_all add: np_diag_def np_square_def values1_def at2_def Let_def concat_rows_nth)

lemma feature_cols_nonempty:
  "set_order ord \<Longrightarrow> ''arm_name'' \<in> set (columns t) \<Longrightarrow> ''arm_name'' \<in> set (feature_cols ord t)"
  by (simp add: set_order_def feature_cols_def id_columns_def)

lemma observations_from_data_Inr:
  assumes "observations_from_data ord loads reg t h = (Inr obs, h')" and "registry_ok reg h"
  shows "length obs = length (groupby (feature_cols ord t) (rows t))
       \<and> length (dicts h') = length (dicts h) + length obs
       \<and> (\<forall>i<length obs. group_post loads reg (feature_cols ord t) h
              (groupby (feature_cols ord t) (rows t) ! i) i (obs ! i) h')"
proof -
  from assms(1) have "convert_groups loads reg (feature_cols ord t)
      (groupby (feature_cols ord t) (rows t)) h = (Inr obs, h')"
    by (simp add: observations_from_data_def Let_def split: if_splits)
  from convert_groups_Inr [OF this assms(2)] show ?thesis by simp
qed

lemma row_group_ok:
  assumes "''arm_name'' \<in> set fcols"
    and "reg (c_arm_name r) = Some arm" and "dicts h ! arm_parameters arm \<noteq> []"
    and "''fidelities'' \<in> set fcols \<longrightarrow> (\<exists>items. loads (c_fidelities r) = JObject items)"
  shows "group_ok loads reg fcols h (key_of fcols r)"
  using assms by (auto simp: group_ok_def fidelities_ok_def zip_key_of)

lemma observations_from_data_ok:
  assumes "set_order ord" and "''arm_name'' \<in> set (columns t)" and "registry_ok reg h"
    and "\<forall>r\<in>set (rows t).
           (\<exists>arm. reg (c_arm_name r) = Some arm \<and> dicts h ! arm_parameters arm \<noteq> [])
         \<and> (''fidelities'' \<in> set (columns t) \<longrightarrow> (\<exists>items. loads (c_fidelities r) = JObject items))"
  shows "\<exists>obs h'. observations_from_data ord loads reg t h = (Inr obs, h')"
proof -
  let ?fc = "feature_cols ord t"
  have a: "''arm_name'' \<in> set ?fc" using assms(1,2) by (rule feature_cols_nonempty)
  have "\<forall>gd\<in>set (groupby ?fc (rows t)). group_ok loads reg ?fc h (fst gd)"
  proof
    fix gd assume "gd \<in> set (groupby ?fc (rows t))"
    from groupby_key_mem [OF this] obtain r where r: "r \<in> set (rows t)" "fst gd = key_of ?fc r"
      by blast
    from assms(4) r(1) obtain arm where
      arm: "reg (c_arm_name r) = Some arm" "dicts h ! arm_parameters arm \<noteq> []"
      and f: "''fidelities'' \<in> set (columns t) \<longrightarrow> (\<exists>items. loads (c_fidelities r) = JObject items)"
      by blast
    have "''fidelities'' \<in> set ?fc \<longrightarrow> (\<exists>items. loads (c_fidelities r) = JObject items)"
      using f by (simp add: feature_cols_def)
    then have "group_ok loads reg ?fc h (key_of ?fc r)"
      using a arm by (intro row_group_ok [where arm = arm]) simp_all
    then show "group_ok loads reg ?fc h (fst gd)" by (simp add: r(2))
  qed
  from convert_groups_ok [OF this assms(3)] a show ?thesis
    by (auto simp: observations_from_data_def Let_def)
qed

lemma observations_from_data_empty:
  assumes "set_order ord" and "''arm_name'' \<in> set (columns t)" and "rows t = []"
  shows "observations_from_data ord loads reg t h = (Inr [], h)"
  using feature_cols_nonempty [OF assms(1,2)] assms(3)
  by (auto simp: observations_from_data_def Let_def groupby_def)

text \<open>
  C1. The table has the column \<open>arm_name\<close> and the store holds the dict of every arm.
  (1) With no rows the result is the empty list. (2) When every row names a registered arm
  whose parameters are not empty and, if the table has the column \<open>fidelities\<close>, every
  row's text decodes to an object, the call returns a list. (3) Whenever the call returns a
  list, the list has one observation for each distinct combination of values in the active
  identifying columns: its length is the number N of these combinations, and observation i
  belongs to the i-th combination in sorted order. Its \<open>ObservationData\<close> has the metric
  names and the means of all rows of the table with that combination, in the order of the
  table; its covariance has shape (k, k) for the k rows of the group, with entry (a, a) the
  square of the a-th sem and every entry off the diagonal zero.
\<close>

theorem C1_one_observation_per_group:
  assumes "set_order ord" and "''arm_name'' \<in> set (columns t)" and "registry_ok reg h"
  shows "(rows t = [] \<longrightarrow> observations_from_data ord loads reg t h = (Inr [], h))
   \<and> ((\<forall>r\<in>set (rows t).
           (\<exists>arm. reg (c_arm_name r) = Some arm \<and> dicts h ! arm_parameters arm \<noteq> [])
         \<and> (''fidelities'' \<in> set (columns t) \<longrightarrow> (\<exists>items. loads (c_fidelities r) = JObject items)))
        \<longrightarrow> (\<exists>obs h'. observations_from_data ord loads reg t h = (Inr obs, h')))
   \<and> (\<forall>obs h'. observations_from_data ord loads reg t h = (Inr obs, h') \<longrightarrow>
        (let fcols = feature_cols ord t;
             ks = sort (remdups (map (key_of fcols) (rows t)))
         in distinct ks \<and> set ks = key_of fcols ` set (rows t)
          \<and> length obs = card (key_of fcols ` set (rows t))
          \<and> (\<forall>i<length obs.
                (let d = filter (\<lambda>r. key_of fcols r = ks ! i) (rows t);
                     od = datas h' ! data (obs ! i)
                 in metric_names od = map c_metric_name d
                  \<and> means od = \<lparr>shape = [length d], elems = map c_mean d\<rparr>
                  \<and> shape (covariance od) = [length d, length d]
                  \<and> (\<forall>a<length d. \<forall>b<length d.
                        at2 (covariance od) a b
                          = (if a = b then c_sem (d ! a) * c_sem (d ! a) else 0))))))"
proof (intro conjI impI allI)
  assume "rows t = []"
  then show "observations_from_data ord loads reg t h = (Inr [], h)"
    using assms(1,2) by (intro observations_from_data_empty)
next
  assume "\<forall>r\<in>set (rows t).
           (\<exists>arm. reg (c_arm_name r) = Some arm \<and> dicts h ! arm_parameters arm \<noteq> [])
         \<and> (''fidelities'' \<in> set (columns t) \<longrightarrow> (\<exists>items. loads (c_fidelities r) = JObject items))"
  with assms show "\<exists>obs h'. observations_from_data ord loads reg t h = (Inr obs, h')"
    by (intro observations_from_data_ok)
next
  fix obs h'
  assume r: "observations_from_data ord loads reg t h = (Inr obs, h')"
  let ?fc = "feature_cols ord t"
  let ?ks = "sort (remdups (map (key_of ?fc) (rows t)))"
  note s = observations_from_data_Inr [OF r assms(3)]
  have len: "length obs = card (key_of ?fc ` set (rows t))" using s by (simp add: length_groupby)
  have "\<forall>i<length obs.
          (let d = filter (\<lambda>r. key_of ?fc r = ?ks ! i) (rows t);
               od = datas h' ! data (obs ! i)
           in metric_names od = map c_metric_name d
            \<and> means od = \<lparr>shape = [length d], elems = map c_mean d\<rparr>
            \<and> shape (covariance od) = [length d, length d]
            \<and> (\<forall>a<length d. \<forall>b<length d.
                  at2 (covariance od) a b
                    = (if a = b then c_sem (d ! a) * c_sem (d ! a) else 0)))"
  proof (intro allI impI)
    fix i assume i: "i < length obs"
    then have i': "i < length (groupby ?fc (rows t))" using s by simp
    from s i have "group_post loads reg ?fc h (groupby ?fc (rows t) ! i) i (obs ! i) h'" by simp
    then have od: "datas h' ! data (obs ! i)
        = \<lparr>metric_names = map c_metric_name (snd (groupby ?fc (rows t) ! i)),
           means = values1 (map c_mean (snd (groupby ?fc (rows t) ! i))),
           covariance = np_diag (np_square (values1 (map c_sem (snd (groupby ?fc (rows t) ! i)))))\<rparr>"
      by (simp add: group_post_def)
    show "let d = filter (\<lambda>r. key_of ?fc r = ?ks ! i) (rows t);
               od = datas h' ! data (obs ! i)
           in metric_names od = map c_metric_name d
            \<and> means od = \<lparr>shape = [length d], elems = map c_mean d\<rparr>
            \<and> shape (covariance od) = [length d, length d]
            \<and> (\<forall>a<length d. \<forall>b<length d.
                  at2 (covariance od) a b
                    = (if a = b then c_sem (d ! a) * c_sem (d ! a) else 0))"
      unfolding Let_def od groupby_nth [OF i'] snd_conv
      by (simp add: np_diag_square) (simp add: values1_def)
  qed
  then show "let fcols = feature_cols ord t;
             ks = sort (remdups (map (key_of fcols) (rows t)))
         in distinct ks \<and> set ks = key_of fcols ` set (rows t)
          \<and> length obs = card (key_of fcols ` set (rows t))
          \<and> (\<forall>i<length obs.
                (let d = filter (\<lambda>r. key_of fcols r = ks ! i) (rows t);
                     od = datas h' ! data (obs ! i)
                 in metric_names od = map c_metric_name d
                  \<and> means od = \<lparr>shape = [length d], elems = map c_mean d\<rparr>
                  \<and> shape (covariance od) = [length d, length d]
                  \<and> (\<forall>a<length d. \<forall>b<length d.
                        at2 (covariance od) a b
                          = (if a = b then c_sem (d ! a) * c_sem (d ! a) else 0))))"
    using len by (simp add: Let_def)
qed

theorem C1_one_observation_per_group_witness:
  "observations_from_data id_columns (\<lambda>s. JMalformed)
      [''arm1'' \<mapsto> \<lparr>arm_parameters = 0\<rparr>, ''arm2'' \<mapsto> \<lparr>arm_parameters = 1\<rparr>]
      (\<lparr>columns = [''arm_name'', ''metric_name'', ''mean'', ''sem''],
      rows = [\<lparr>c_arm_name = ''arm2'', c_trial_index = 0, c_start_time = 0, c_end_time = 0, c_random_split = 0, c_fidelities = '''', c_metric_name = ''m1'', c_mean = 1, c_sem = 2\<rparr>,
              \<lparr>c_arm_name = ''arm1'', c_trial_index = 0, c_start_time = 0, c_end_time = 0, c_random_split = 0, c_fidelities = '''', c_metric_name = ''m1'', c_mean = 3, c_sem = 0.5\<rparr>,
              \<lparr>c_arm_name = ''arm1'', c_trial_index = 0, c_start_time = 0, c_end_time = 0, c_random_split = 0, c_fidelities = '''', c_metric_name = ''m2'', c_mean = 4, c_sem = 1\<rparr>]\<rparr> :: real table)
      (\<lparr>dicts = [[(''x'', PInt 1), (''y'', PInt 2)], [(''x'', PInt 7)]], feats = [], datas = []\<rparr> :: real heap)
    = (Inr [\<lparr>features = 0, data = 0, arm_name = Some ''arm1''\<rparr>,
            \<lparr>features = 1, data = 1, arm_name = Some ''arm2''\<rparr>],
       \<lparr>dicts = [[(''x'', PInt 1), (''y'', PInt 2)], [(''x'', PInt 7)],
                 [(''x'', PInt 1), (''y'', PInt 2)], [(''x'', PInt 7)]],
        feats = [\<lparr>parameters = 2, trial_index = None, start_time = None,
                   end_time = None, random_split = None\<rparr>,
                 \<lparr>parameters = 3, trial_index = None, start_time = None,
                   end_time = None, random_split = None\<rparr>],
        datas = [\<lparr>metric_names = [''m1'', ''m2''],
                   means = \<lparr>shape = [2], elems = [3, 4]\<rparr>,
                   covariance = \<lparr>shape = [2, 2], elems = [0.25, 0, 0, 1]\<rparr>\<rparr>,
                 \<lparr>metric_names = [''m1''],
                   means = \<lparr>shape = [1], elems = [1]\<rparr>,
                   covariance = \<lparr>shape = [1, 1], elems = [4]\<rparr>\<rparr>]\<rparr>)
   \<and> card (key_of (feature_cols id_columns
      (\<lparr>columns = [''arm_name'', ''metric_name'', ''mean'', ''sem''],
      rows = [\<lparr>c_arm_name = ''arm2'', c_trial_index = 0, c_start_time = 0, c_end_time = 0, c_random_split = 0, c_fidelities = '''', c_metric_name = ''m1'', c_mean = 1, c_sem = 2\<rparr>,
              \<lparr>c_arm_name = ''arm1'', c_trial_index = 0, c_start_time = 0, c_end_time = 0, c_random_split = 0, c_fidelities = '''', c_metric_name = ''m1'', c_mean = 3, c_sem = 0.5\<rparr>,
              \<lparr>c_arm_name = ''arm1'', c_trial_index = 0, c_start_time = 0, c_end_time = 0, c_random_split = 0, c_fidelities = '''', c_metric_name = ''m2'', c_mean = 4, c_sem = 1\<rparr>]\<rparr> :: real table))
        ` set (rows
      (\<lparr>columns = [''arm_name'', ''metric_name'', ''mean'', ''sem''],
      rows = [\<lparr>c_arm_name = ''arm2'', c_trial_index = 0, c_start_time = 0, c_end_time = 0, c_random_split = 0, c_fidelities = '''', c_metric_name = ''m1'', c_mean = 1, c_sem = 2\<rparr>,
              \<lparr>c_arm_name = ''arm1'', c_trial_index = 0, c_start_time = 0, c_end_time = 0, c_random_split = 0, c_fidelities = '''', c_metric_name = ''m1'', c_mean = 3, c_sem = 0.5\<rparr>,
              \<lparr>c_arm_name = ''arm1'', c_trial_index = 0, c_start_time = 0, c_end_time = 0, c_random_split = 0, c_fidelities = '''', c_metric_name = ''m2'', c_mean = 4, c_sem = 1\<rparr>]\<rparr> :: real table))) = 2"
proof -
  let ?t = "(\<lparr>columns = [''arm_name'', ''metric_name'', ''mean'', ''sem''],
      rows = [\<lparr>c_arm_name = ''arm2'', c_trial_index = 0, c_start_time = 0, c_end_time = 0, c_random_split = 0, c_fidelities = '''', c_metric_name = ''m1'', c_mean = 1, c_sem = 2\<rparr>,
              \<lparr>c_arm_name = ''arm1'', c_trial_index = 0, c_start_time = 0, c_end_time = 0, c_random_split = 0, c_fidelities = '''', c_metric_name = ''m1'', c_mean = 3, c_sem = 0.5\<rparr>,
              \<lparr>c_arm_name = ''arm1'', c_trial_index = 0, c_start_time = 0, c_end_time = 0, c_random_split = 0, c_fidelities = '''', c_metric_name = ''m2'', c_mean = 4, c_sem = 1\<rparr>]\<rparr> :: real table)"
  let ?h = "(\<lparr>dicts = [[(''x'', PInt 1), (''y'', PInt 2)], [(''x'', PInt 7)]], feats = [], datas = []\<rparr> :: real heap)"
  let ?reg = "[''arm1'' \<mapsto> \<lparr>arm_parameters = 0\<rparr>, ''arm2'' \<mapsto> \<lparr>arm_parameters = 1\<rparr>]"
  have so: "set_order id_columns" by (simp add: set_order_def id_columns_def)
  have col: "''arm_name'' \<in> set (columns ?t)" by simp
  have rok: "registry_ok ?reg ?h" by (simp add: registry_ok_def)
  have ev: "observations_from_data id_columns (\<lambda>s. JMalformed) ?reg ?t ?h
    = (Inr [\<lparr>features = 0, data = 0, arm_name = Some ''arm1''\<rparr>,
            \<lparr>features = 1, data = 1, arm_name = Some ''arm2''\<rparr>],
       \<lparr>dicts = [[(''x'', PInt 1), (''y'', PInt 2)], [(''x'', PInt 7)],
                 [(''x'', PInt 1), (''y'', PInt 2)], [(''x'', PInt 7)]],
        feats = [\<lparr>parameters = 2, trial_index = None, start_time = None,
                   end_time = None, random_split = None\<rparr>,
                 \<lparr>parameters = 3, trial_index = None, start_time = None,
                   end_time = None, random_split = None\<rparr>],
        datas = [\<lparr>metric_names = [''m1'', ''m2''],
                   means = \<lparr>shape = [2], elems = [3, 4]\<rparr>,
                   covariance = \<lparr>shape = [2, 2], elems = [0.25, 0, 0, 1]\<rparr>\<rparr>,
                 \<lparr>metric_names = [''m1''],
                   means = \<lparr>shape = [1], elems = [1]\<rparr>,
                   covariance = \<lparr>shape = [1, 1], elems = [4]\<rparr>\<rparr>]\<rparr>)"
    by (simp add: observations_from_data_def feature_cols_def id_columns_def groupby_def key_of_def
        less_cell_def observation_of_group_def dict_copy_def Let_def apply_fidelities_def
        features_get_def new_ObservationFeatures_def new_ObservationData_def values1_def
        np_diag_def np_square_def)
  note c = C1_one_observation_per_group [OF so col rok, of "(\<lambda>s. JMalformed)",
      THEN conjunct2, THEN conjunct2, THEN spec, THEN spec, THEN mp, OF ev]
  have "card (key_of (feature_cols id_columns ?t) ` set (rows ?t))
      = length [\<lparr>features = 0, data = 0, arm_name = Some ''arm1''\<rparr>,
                \<lparr>features = 1, data = 1, arm_name = Some ''arm2''\<rparr>]"
    by (rule c [unfolded Let_def, THEN conjunct2, THEN conjunct2, THEN conjunct1, symmetric])
  also have "\<dots> = 2" by simp
  finally show ?thesis using ev by (simp only: simp_thms)
qed

lemma group_post_row:
  assumes "group_post loads reg fc h (key_of fc r, d) i ob h'"
  shows "\<exists>arm. reg (c_arm_name r) = Some arm
           \<and> dicts h ! arm_parameters arm \<noteq> []
           \<and> fidelities_ok loads (zip fc (key_of fc r))
           \<and> arm_name ob = Some (c_arm_name r)
           \<and> dicts h' ! (length (dicts h) + i)
               = dict_update (dicts h ! arm_parameters arm)
                             (fidelity_items loads (zip fc (key_of fc r)))"
  using assms by (auto simp: group_post_def zip_key_of split: if_splits)

lemma fidelity_items_row:
  assumes "''fidelities'' \<in> set fc" and "fidelities_ok loads (zip fc (key_of fc r))"
  shows "loads (c_fidelities r) = JObject (fidelity_items loads (zip fc (key_of fc r)))"
  using assms by (auto simp: fidelities_ok_def fidelity_items_def zip_key_of split: json.splits)

lemma feature_cols_fidelities:
  "set_order ord \<Longrightarrow> ''fidelities'' \<in> set (columns t) \<Longrightarrow> ''fidelities'' \<in> set (feature_cols ord t)"
  by (simp add: set_order_def feature_cols_def id_columns_def)

text \<open>
  C5. The table has the columns \<open>arm_name\<close> and \<open>fidelities\<close>, the store holds the dict of
  every arm, and \<open>json.loads\<close> gives well-formed dicts. (1) When every row names a registered
  arm whose parameters are not empty and every row's \<open>fidelities\<close> text decodes to an
  object, the call returns a list. (2) Whenever the call returns a list, the
  \<open>ObservationFeatures\<close> of the observation of a group has as parameters the arm's base
  parameters overridden by the decoded fidelity items of the group: a key of the fidelity
  object has the fidelity value, every other key the arm's value.
\<close>

theorem C5_fidelity_override:
  assumes "set_order ord" and "''arm_name'' \<in> set (columns t)"
    and "''fidelities'' \<in> set (columns t)" and "registry_ok reg h"
    and "\<forall>s items. loads s = JObject items \<longrightarrow> distinct (map fst items)"
  shows "((\<forall>r\<in>set (rows t).
           (\<exists>arm. reg (c_arm_name r) = Some arm \<and> dicts h ! arm_parameters arm \<noteq> [])
         \<and> (\<exists>items. loads (c_fidelities r) = JObject items))
        \<longrightarrow> (\<exists>obs h'. observations_from_data ord loads reg t h = (Inr obs, h')))
   \<and> (\<forall>obs h'. observations_from_data ord loads reg t h = (Inr obs, h') \<longrightarrow>
        (let fcols = feature_cols ord t;
             ks = sort (remdups (map (key_of fcols) (rows t)))
         in \<forall>i<length obs. \<forall>r\<in>set (rows t). key_of fcols r = ks ! i \<longrightarrow>
              (\<exists>arm items. reg (c_arm_name r) = Some arm
                 \<and> loads (c_fidelities r) = JObject items
                 \<and> arm_name (obs ! i) = Some (c_arm_name r)
                 \<and> map_of (dicts h' ! parameters (feats h' ! features (obs ! i)))
                     = map_of (dicts h ! arm_parameters arm) ++ map_of items)))"
proof (intro conjI impI allI)
  assume "\<forall>r\<in>set (rows t).
           (\<exists>arm. reg (c_arm_name r) = Some arm \<and> dicts h ! arm_parameters arm \<noteq> [])
         \<and> (\<exists>items. loads (c_fidelities r) = JObject items)"
  then show "\<exists>obs h'. observations_from_data ord loads reg t h = (Inr obs, h')"
    using assms(1,2,4) by (intro observations_from_data_ok) auto
next
  fix obs h'
  assume res: "observations_from_data ord loads reg t h = (Inr obs, h')"
  let ?fc = "feature_cols ord t"
  let ?ks = "sort (remdups (map (key_of ?fc) (rows t)))"
  note s = observations_from_data_Inr [OF res assms(4)]
  have fid: "''fidelities'' \<in> set ?fc" using assms(1,3) by (rule feature_cols_fidelities)
  have "\<forall>i<length obs. \<forall>r\<in>set (rows t). key_of ?fc r = ?ks ! i \<longrightarrow>
              (\<exists>arm items. reg (c_arm_name r) = Some arm
                 \<and> loads (c_fidelities r) = JObject items
                 \<and> arm_name (obs ! i) = Some (c_arm_name r)
                 \<and> map_of (dicts h' ! parameters (feats h' ! features (obs ! i)))
                     = map_of (dicts h ! arm_parameters arm) ++ map_of items)"
  proof (intro allI impI ballI)
    fix i r
    assume i: "i < length obs" and r: "r \<in> set (rows t)" and k: "key_of ?fc r = ?ks ! i"
    from i s have i': "i < length (groupby ?fc (rows t))" by simp
    from s i have gp: "group_post loads reg ?fc h (groupby ?fc (rows t) ! i) i (obs ! i) h'"
      by simp
    have p: "parameters (feats h' ! features (obs ! i)) = length (dicts h) + i"
      using gp by (simp add: group_post_def)
    from gp have "group_post loads reg ?fc h
        (key_of ?fc r, filter (\<lambda>r'. key_of ?fc r' = ?ks ! i) (rows t)) i (obs ! i) h'"
      by (simp add: groupby_nth [OF i'] k)
    from group_post_row [OF this] obtain arm where
      arm: "reg (c_arm_name r) = Some arm"
      and fok: "fidelities_ok loads (zip ?fc (key_of ?fc r))"
      and nm: "arm_name (obs ! i) = Some (c_arm_name r)"
      and d: "dicts h' ! (length (dicts h) + i)
               = dict_update (dicts h ! arm_parameters arm)
                             (fidelity_items loads (zip ?fc (key_of ?fc r)))"
      by blast
    let ?items = "fidelity_items loads (zip ?fc (key_of ?fc r))"
    have l: "loads (c_fidelities r) = JObject ?items" using fid fok by (rule fidelity_items_row)
    with assms(5) have "distinct (map fst ?items)" by blast
    then have "map_of (dict_update (dicts h ! arm_parameters arm) ?items)
        = map_of (dicts h ! arm_parameters arm) ++ map_of ?items"
      by (rule map_of_dict_update)
    with arm l nm show "\<exists>arm items. reg (c_arm_name r) = Some arm
                 \<and> loads (c_fidelities r) = JObject items
                 \<and> arm_name (obs ! i) = Some (c_arm_name r)
                 \<and> map_of (dicts h' ! parameters (feats h' ! features (obs ! i)))
                     = map_of (dicts h ! arm_parameters arm) ++ map_of items"
      unfolding p d by blast
  qed
  then show "let fcols = feature_cols ord t;
             ks = sort (remdups (map (key_of fcols) (rows t)))
         in \<forall>i<length obs. \<forall>r\<in>set (rows t). key_of fcols r = ks ! i \<longrightarrow>
              (\<exists>arm items. reg (c_arm_name r) = Some arm
                 \<and> loads (c_fidelities r) = JObject items
                 \<and> arm_name (obs ! i) = Some (c_arm_name r)
                 \<and> map_of (dicts h' ! parameters (feats h' ! features (obs ! i)))
                     = map_of (dicts h ! arm_parameters arm) ++ map_of items)"
    by (simp add: Let_def)
qed

theorem C5_fidelity_override_witness:
  "observations_from_data id_columns
      (\<lambda>s. if s = (''{'' @ [CHR 0x22] @ ''x'' @ [CHR 0x22] @ '': 5}'')
            then JObject [(''x'', PInt 5)] else JMalformed)
      [''arm1'' \<mapsto> \<lparr>arm_parameters = 0\<rparr>]
      (\<lparr>columns = [''arm_name'', ''fidelities'', ''metric_name'', ''mean'', ''sem''],
      rows = [\<lparr>c_arm_name = ''arm1'', c_trial_index = 0, c_start_time = 0, c_end_time = 0,
               c_random_split = 0, c_fidelities = (''{'' @ [CHR 0x22] @ ''x'' @ [CHR 0x22] @ '': 5}''),
               c_metric_name = ''m1'', c_mean = 3, c_sem = 2\<rparr>]\<rparr> :: int table)
      (\<lparr>dicts = [[(''x'', PInt 1), (''y'', PInt 2)]], feats = [], datas = []\<rparr> :: int heap)
    = (Inr [\<lparr>features = 0, data = 0, arm_name = Some ''arm1''\<rparr>],
       \<lparr>dicts = [[(''x'', PInt 1), (''y'', PInt 2)], [(''x'', PInt 5), (''y'', PInt 2)]],
        feats = [\<lparr>parameters = 1, trial_index = None, start_time = None,
                   end_time = None, random_split = None\<rparr>],
        datas = [\<lparr>metric_names = [''m1''], means = \<lparr>shape = [1], elems = [3]\<rparr>,
                   covariance = \<lparr>shape = [1, 1], elems = [4]\<rparr>\<rparr>]\<rparr>)
   \<and> map_of (dicts \<lparr>dicts = [[(''x'', PInt 1), (''y'', PInt 2)], [(''x'', PInt 5), (''y'', PInt 2)]],
        feats = [\<lparr>parameters = 1, trial_index = None, start_time = None,
                   end_time = None, random_split = None\<rparr>],
        datas = [\<lparr>metric_names = [''m1''], means = \<lparr>shape = [1], elems = [3]\<rparr>,
                   covariance = \<lparr>shape = [1, 1], elems = [4]\<rparr>\<rparr>]\<rparr>
        ! parameters (feats \<lparr>dicts = [[(''x'', PInt 1), (''y'', PInt 2)], [(''x'', PInt 5), (''y'', PInt 2)]],
        feats = [\<lparr>parameters = 1, trial_index = None, start_time = None,
                   end_time = None, random_split = None\<rparr>],
        datas = [\<lparr>metric_names = [''m1''], means = \<lparr>shape = [1], elems = [3]\<rparr>,
                   covariance = \<lparr>shape = [1, 1], elems = [4]\<rparr>\<rparr>]\<rparr>
        ! features \<lparr>features = 0, data = 0, arm_name = Some ''arm1''\<rparr>)) ''x''
     = Some (PInt 5)"
proof -
  let ?r = "\<lparr>c_arm_name = ''arm1'', c_trial_index = 0, c_start_time = 0, c_end_time = 0,
               c_random_split = 0, c_fidelities = (''{'' @ [CHR 0x22] @ ''x'' @ [CHR 0x22] @ '': 5}''),
               c_metric_name = ''m1'', c_mean = 3, c_sem = 2\<rparr>"
  let ?t = "(\<lparr>columns = [''arm_name'', ''fidelities'', ''metric_name'', ''mean'', ''sem''],
      rows = [\<lparr>c_arm_name = ''arm1'', c_trial_index = 0, c_start_time = 0, c_end_time = 0,
               c_random_split = 0, c_fidelities = (''{'' @ [CHR 0x22] @ ''x'' @ [CHR 0x22] @ '': 5}''),
               c_metric_name = ''m1'', c_mean = 3, c_sem = 2\<rparr>]\<rparr> :: int table)"
  let ?h = "(\<lparr>dicts = [[(''x'', PInt 1), (''y'', PInt 2)]], feats = [], datas = []\<rparr> :: int heap)"
  let ?h' = "\<lparr>dicts = [[(''x'', PInt 1), (''y'', PInt 2)], [(''x'', PInt 5), (''y'', PInt 2)]],
        feats = [\<lparr>parameters = 1, trial_index = None, start_time = None,
                   end_time = None, random_split = None\<rparr>],
        datas = [\<lparr>metric_names = [''m1''], means = \<lparr>shape = [1], elems = [3]\<rparr>,
                   covariance = \<lparr>shape = [1, 1], elems = [4]\<rparr>\<rparr>]\<rparr>"
  let ?reg = "[''arm1'' \<mapsto> \<lparr>arm_parameters = 0\<rparr>]"
  let ?loads = "(\<lambda>s. if s = (''{'' @ [CHR 0x22] @ ''x'' @ [CHR 0x22] @ '': 5}'')
            then JObject [(''x'', PInt 5)] else JMalformed)"
  have so: "set_order id_columns" by (simp add: set_order_def id_columns_def)
  have col: "''arm_name'' \<in> set (columns ?t)" "''fidelities'' \<in> set (columns ?t)" by simp_all
  have rok: "registry_ok ?reg ?h" by (simp add: registry_ok_def)
  have wf: "\<forall>s items. ?loads s = JObject items \<longrightarrow> distinct (map fst items)" by auto
  have ev: "observations_from_data id_columns ?loads ?reg ?t ?h
      = (Inr [\<lparr>features = 0, data = 0, arm_name = Some ''arm1''\<rparr>], ?h')"
    by (simp add: observations_from_data_def feature_cols_def id_columns_def groupby_def key_of_def
        less_cell_def observation_of_group_def dict_copy_def Let_def apply_fidelities_def
        features_get_def new_ObservationFeatures_def new_ObservationData_def values1_def
        np_diag_def np_square_def heap_setitem_def)
  have k: "key_of (feature_cols id_columns ?t) ?r
      = sort (remdups (map (key_of (feature_cols id_columns ?t)) (rows ?t))) ! 0"
    by (simp add: feature_cols_def id_columns_def key_of_def)
  note c = C5_fidelity_override [OF so col rok wf, THEN conjunct2, THEN spec, THEN spec, THEN mp, OF ev]
  from c [unfolded Let_def, rule_format, of 0 ?r, OF _ _ k]
  obtain arm items where "?reg ''arm1'' = Some arm" and "?loads (c_fidelities ?r) = JObject items"
    and m: "map_of (dicts ?h' ! parameters (feats ?h' ! features (\<lparr>features = 0, data = 0, arm_name = Some ''arm1''\<rparr>)))
           = map_of (dicts ?h ! arm_parameters arm) ++ map_of items"
    by auto
  then have "arm = \<lparr>arm_parameters = 0\<rparr>" and "items = [(''x'', PInt 5)]" by simp_all
  with m have "map_of (dicts ?h' ! parameters (feats ?h' ! features (\<lparr>features = 0, data = 0, arm_name = Some ''arm1''\<rparr>))) ''x''
      = Some (PInt 5)"
    by (simp only: m) simp
  with ev show ?thesis by (simp only: simp_thms)
qed

lemma row_group_unknown:
  "''arm_name'' \<in> set fcols \<Longrightarrow> reg (c_arm_name r) = None \<Longrightarrow> group_unknown reg fcols (key_of fcols r)"
  by (simp add: group_unknown_def zip_key_of)

lemma convert_groups_KeyError_first:
  assumes "group_unknown reg fcols (fst gd)"
    and "\<forall>x\<in>set pre. group_unknown reg fcols (fst x) \<or> group_ok loads reg fcols h (fst x)"
    and "registry_ok reg h"
  shows "\<exists>h'. convert_groups loads reg fcols (pre @ gd # post) h = (Inl KeyError, h')"
  using assms(2,3)
proof (induction pre arbitrary: h)
  case Nil
  obtain g d where gd: "gd = (g, d)" by (cases gd)
  with assms(1) show ?case by (simp add: observation_of_group_unknown)
next
  case (Cons x pre)
  obtain g d where x: "x = (g, d)" by (cases x)
  show ?case
  proof (cases "group_unknown reg fcols g")
    case True
    then show ?thesis by (simp add: x observation_of_group_unknown)
  next
    case False
    with Cons.prems(1) have ok: "group_ok loads reg fcols h g" by (auto simp: x)
    from observation_of_group_ok [OF ok] obtain ob h1 where
      g: "observation_of_group loads reg fcols (g, d) h = (Inr ob, h1)" by blast
    have e: "heap_extends h h1" using observation_of_group_extends [OF g] .
    have 2: "\<forall>x\<in>set pre. group_unknown reg fcols (fst x) \<or> group_ok loads reg fcols h1 (fst x)"
      using Cons.prems e by (auto intro: group_ok_extends)
    from Cons.IH [OF 2 registry_ok_extends [OF Cons.prems(2) e]] obtain h' where
      "convert_groups loads reg fcols (pre @ gd # post) h1 = (Inl KeyError, h')" by blast
    with g show ?thesis by (simp add: x)
  qed
qed

lemma sorted_distinct_before:
  assumes "sorted (xs @ k # ys)" and "distinct (xs @ k # ys)" and "x \<in> set xs"
  shows "x < (k :: 'a :: linorder)"
proof -
  from assms(1,3) have "x \<le> k" by (auto simp: sorted_append)
  moreover from assms(2,3) have "x \<noteq> k" by auto
  ultimately show ?thesis by simp
qed

text \<open>
  C9 as it is stated, with the lookup failure as the exception for every table that names an
  unregistered arm, does not hold. The arm \<open>zz\<close> is not registered; the arm \<open>a\<close> is, and
  the \<open>fidelities\<close> text of its row does not decode. The group of \<open>a\<close> is processed first,
  and the exception of the call is the decoding error of \<open>json.loads\<close> at line 217, raised
  before the loop reaches the group of \<open>zz\<close>.
\<close>

theorem C9_other_exception_first:
  "[''a'' \<mapsto> \<lparr>arm_parameters = 0\<rparr>] ''zz'' = None
   \<and> observations_from_data id_columns
      (\<lambda>s. if s = ''ok'' then JObject [] else JMalformed)
      [''a'' \<mapsto> \<lparr>arm_parameters = 0\<rparr>]
      (\<lparr>columns = [''arm_name'', ''fidelities'', ''metric_name'', ''mean'', ''sem''],
      rows = [\<lparr>c_arm_name = ''zz'', c_trial_index = 0, c_start_time = 0, c_end_time = 0,
               c_random_split = 0, c_fidelities = ''ok'',
               c_metric_name = ''m1'', c_mean = 3, c_sem = 2\<rparr>,
              \<lparr>c_arm_name = ''a'', c_trial_index = 0, c_start_time = 0, c_end_time = 0,
               c_random_split = 0, c_fidelities = ''not json'',
               c_metric_name = ''m1'', c_mean = 3, c_sem = 2\<rparr>]\<rparr> :: int table)
      (\<lparr>dicts = [[(''x'', PInt 1), (''y'', PInt 2)]], feats = [], datas = []\<rparr> :: int heap)
    = (Inl JSONDecodeError,
       \<lparr>dicts = [[(''x'', PInt 1), (''y'', PInt 2)], [(''x'', PInt 1), (''y'', PInt 2)]],
        feats = [], datas = []\<rparr>)
   \<and> JSONDecodeError \<noteq> KeyError"
  by (simp add: observations_from_data_def feature_cols_def id_columns_def groupby_def key_of_def
        less_cell_def observation_of_group_def dict_copy_def Let_def apply_fidelities_def
        features_get_def new_ObservationFeatures_def new_ObservationData_def values1_def
        np_diag_def np_square_def heap_setitem_def)

text \<open>
  C9. The table has the column \<open>arm_name\<close> and a row \<open>r\<close> names an arm that is not in the
  registry. Then the call raises: it returns no list, whatever the other rows are. The
  exception is the \<open>KeyError\<close> of the lookup when no group that is processed before the
  group of \<open>r\<close> raises an exception of its own: the groups are processed in the sorted
  order of their keys, and a group of a registered arm raises nothing when the arm's
  parameters are not empty and, if the table has the column \<open>fidelities\<close>, the group's
  text decodes to an object.
\<close>

theorem C9_unknown_arm_raises:
  assumes "set_order ord" and "''arm_name'' \<in> set (columns t)"
    and "r \<in> set (rows t)" and "reg (c_arm_name r) = None"
  shows "(\<exists>e h'. observations_from_data ord loads reg t h = (Inl e, h'))
   \<and> (registry_ok reg h
        \<and> (\<forall>r'\<in>set (rows t).
              key_of (feature_cols ord t) r' < key_of (feature_cols ord t) r \<longrightarrow>
              (\<forall>arm. reg (c_arm_name r') = Some arm \<longrightarrow>
                 dicts h ! arm_parameters arm \<noteq> []
               \<and> (''fidelities'' \<in> set (columns t) \<longrightarrow>
                    (\<exists>items. loads (c_fidelities r') = JObject items))))
        \<longrightarrow> (\<exists>h'. observations_from_data ord loads reg t h = (Inl KeyError, h')))"
proof (intro conjI impI)
  let ?fc = "feature_cols ord t"
  let ?ks = "sort (remdups (map (key_of ?fc) (rows t)))"
  let ?F = "\<lambda>k. (k, filter (\<lambda>r. key_of ?fc r = k) (rows t))"
  have a: "''arm_name'' \<in> set ?fc" using assms(1,2) by (rule feature_cols_nonempty)
  then have ne: "?fc \<noteq> []" by auto
  have unk: "group_unknown reg ?fc (key_of ?fc r)" using a assms(4) by (rule row_group_unknown)
  from groupby_mem [OF assms(3), of ?fc] obtain gd where
    gd: "gd \<in> set (groupby ?fc (rows t))" "fst gd = key_of ?fc r" by blast
  have "group_unknown reg ?fc (fst gd)" using unk by (simp add: gd(2))
  with gd(1) have u: "\<exists>gd\<in>set (groupby ?fc (rows t)). group_unknown reg ?fc (fst gd)" by blast
  from convert_groups_unknown [OF u] ne
  show "\<exists>e h'. observations_from_data ord loads reg t h = (Inl e, h')"
    by (simp add: observations_from_data_def Let_def)
  assume ok: "registry_ok reg h
        \<and> (\<forall>r'\<in>set (rows t).
              key_of ?fc r' < key_of ?fc r \<longrightarrow>
              (\<forall>arm. reg (c_arm_name r') = Some arm \<longrightarrow>
                 dicts h ! arm_parameters arm \<noteq> []
               \<and> (''fidelities'' \<in> set (columns t) \<longrightarrow>
                    (\<exists>items. loads (c_fidelities r') = JObject items))))"
  have "key_of ?fc r \<in> set ?ks" using assms(3) by simp
  from split_list [OF this] obtain ks1 ks2 where ks: "?ks = ks1 @ key_of ?fc r # ks2" by blast
  have sd: "sorted (ks1 @ key_of ?fc r # ks2)" "distinct (ks1 @ key_of ?fc r # ks2)"
    unfolding ks [symmetric] by simp_all
  have gb: "groupby ?fc (rows t) = map ?F ks1 @ ?F (key_of ?fc r) # map ?F ks2"
    unfolding groupby_def ks by simp
  have pre: "\<forall>x\<in>set (map ?F ks1).
      group_unknown reg ?fc (fst x) \<or> group_ok loads reg ?fc h (fst x)"
  proof
    fix x assume "x \<in> set (map ?F ks1)"
    then have k1: "fst x \<in> set ks1" by auto
    then have lt: "fst x < key_of ?fc r" using sd by (intro sorted_distinct_before)
    from k1 have "fst x \<in> set ?ks" unfolding ks by simp
    then obtain r' where r': "r' \<in> set (rows t)" "fst x = key_of ?fc r'" by auto
    show "group_unknown reg ?fc (fst x) \<or> group_ok loads reg ?fc h (fst x)"
    proof (cases "reg (c_arm_name r')")
      case None
      with a show ?thesis by (simp add: r'(2) row_group_unknown)
    next
      case (Some arm)
      with ok r' lt have "dicts h ! arm_parameters arm \<noteq> []"
        and "''fidelities'' \<in> set ?fc \<longrightarrow> (\<exists>items. loads (c_fidelities r') = JObject items)"
        by (auto simp: feature_cols_def)
      with a Some have "group_ok loads reg ?fc h (key_of ?fc r')"
        by (intro row_group_ok [where arm = arm]) simp_all
      then show ?thesis by (simp add: r'(2))
    qed
  qed
  have "group_unknown reg ?fc (fst (?F (key_of ?fc r)))" using unk by simp
  from convert_groups_KeyError_first [where post = "map ?F ks2", OF this pre] ok ne
  show "\<exists>h'. observations_from_data ord loads reg t h = (Inl KeyError, h')"
    by (simp add: observations_from_data_def Let_def gb)
qed


theorem C9_unknown_arm_raises_witness:
  "\<exists>h'. observations_from_data id_columns
      (\<lambda>s. if s = ''ok'' then JObject [] else JMalformed)
      [''arm1'' \<mapsto> \<lparr>arm_parameters = 0\<rparr>, ''zzz'' \<mapsto> \<lparr>arm_parameters = 0\<rparr>]
      (\<lparr>columns = [''arm_name'', ''fidelities'', ''metric_name'', ''mean'', ''sem''],
      rows = [\<lparr>c_arm_name = ''zzz'', c_trial_index = 0, c_start_time = 0, c_end_time = 0,
               c_random_split = 0, c_fidelities = ''bad'',
               c_metric_name = ''m1'', c_mean = 3, c_sem = 2\<rparr>,
              \<lparr>c_arm_name = ''zz'', c_trial_index = 0, c_start_time = 0, c_end_time = 0,
               c_random_split = 0, c_fidelities = ''ok'',
               c_metric_name = ''m1'', c_mean = 3, c_sem = 2\<rparr>,
              \<lparr>c_arm_name = ''arm1'', c_trial_index = 0, c_start_time = 0, c_end_time = 0,
               c_random_split = 0, c_fidelities = ''ok'',
               c_metric_name = ''m1'', c_mean = 3, c_sem = 2\<rparr>]\<rparr> :: int table)
      (\<lparr>dicts = [[(''x'', PInt 1), (''y'', PInt 2)]], feats = [], datas = []\<rparr> :: int heap)
    = (Inl KeyError, h')"
proof -
  let ?r = "(\<lparr>c_arm_name = ''zz'', c_trial_index = 0, c_start_time = 0, c_end_time = 0,
               c_random_split = 0, c_fidelities = ''ok'',
               c_metric_name = ''m1'', c_mean = 3, c_sem = 2\<rparr> :: int row)"
  let ?t = "(\<lparr>columns = [''arm_name'', ''fidelities'', ''metric_name'', ''mean'', ''sem''],
      rows = [\<lparr>c_arm_name = ''zzz'', c_trial_index = 0, c_start_time = 0, c_end_time = 0,
               c_random_split = 0, c_fidelities = ''bad'',
               c_metric_name = ''m1'', c_mean = 3, c_sem = 2\<rparr>,
              \<lparr>c_arm_name = ''zz'', c_trial_index = 0, c_start_time = 0, c_end_time = 0,
               c_random_split = 0, c_fidelities = ''ok'',
               c_metric_name = ''m1'', c_mean = 3, c_sem = 2\<rparr>,
              \<lparr>c_arm_name = ''arm1'', c_trial_index = 0, c_start_time = 0, c_end_time = 0,
               c_random_split = 0, c_fidelities = ''ok'',
               c_metric_name = ''m1'', c_mean = 3, c_sem = 2\<rparr>]\<rparr> :: int table)"
  let ?h = "(\<lparr>dicts = [[(''x'', PInt 1), (''y'', PInt 2)]], feats = [], datas = []\<rparr> :: int heap)"
  let ?reg = "[''arm1'' \<mapsto> \<lparr>arm_parameters = 0\<rparr>, ''zzz'' \<mapsto> \<lparr>arm_parameters = 0\<rparr>]"
  let ?loads = "(\<lambda>s. if s = ''ok'' then JObject [] else JMalformed) :: string \<Rightarrow> int json"
  have so: "set_order id_columns" by (simp add: set_order_def id_columns_def)
  have col: "''arm_name'' \<in> set (columns ?t)" by simp
  have rin: "?r \<in> set (rows ?t)" by simp
  have unk: "?reg (c_arm_name ?r) = None" by simp
  have ok: "registry_ok ?reg ?h
        \<and> (\<forall>r'\<in>set (rows ?t).
              key_of (feature_cols id_columns ?t) r' < key_of (feature_cols id_columns ?t) ?r \<longrightarrow>
              (\<forall>arm. ?reg (c_arm_name r') = Some arm \<longrightarrow>
                 dicts ?h ! arm_parameters arm \<noteq> []
               \<and> (''fidelities'' \<in> set (columns ?t) \<longrightarrow>
                    (\<exists>items. ?loads (c_fidelities r') = JObject items))))"
    by (auto simp: registry_ok_def feature_cols_def id_columns_def key_of_def less_cell_def)
  from C9_unknown_arm_raises [where ord = id_columns and t = ?t and r = ?r and reg = ?reg
      and loads = ?loads and h = ?h, OF so col rin unk, THEN conjunct2, THEN mp, OF ok]
  show ?thesis .
qed

lemma observations_from_data_extends:
  "observations_from_data ord loads reg t h = (res, h') \<Longrightarrow> heap_extends h h'"
  by (auto simp: observations_from_data_def Let_def heap_extends_refl
        split: if_splits intro: convert_groups_extends)

text \<open>
  C10. The store holds the dict of every arm of the registry. Whatever the call does,
  return or raise, every object that was in the store before the call is in it afterwards
  with the same contents; in particular the dict of every arm is as it was. When the call
  returns a list, the parameters of each observation's \<open>ObservationFeatures\<close> is a dict
  object made by the call: it is no object of the old store, so the dict of no arm, and it
  is the parameters of no other observation of the list. So an assignment into the
  parameters of one observation leaves the dict of every arm and the parameters of every
  other observation as they were.
\<close>

theorem C10_registry_not_mutated:
  assumes "registry_ok reg h"
  shows "(let res = fst (observations_from_data ord loads reg t h);
              h' = snd (observations_from_data ord loads reg t h)
          in heap_extends h h'
           \<and> (\<forall>n arm. reg n = Some arm \<longrightarrow>
                 dicts h' ! arm_parameters arm = dicts h ! arm_parameters arm)
           \<and> (\<forall>obs. res = Inr obs \<longrightarrow>
                (\<forall>i<length obs.
                   (let p = parameters (feats h' ! features (obs ! i))
                    in length (dicts h) \<le> p \<and> p < length (dicts h')
                     \<and> (\<forall>n arm. reg n = Some arm \<longrightarrow> arm_parameters arm \<noteq> p)
                     \<and> (\<forall>j<length obs. j \<noteq> i \<longrightarrow>
                           parameters (feats h' ! features (obs ! j)) \<noteq> p)
                     \<and> (\<forall>k v.
                          (let h'' = heap_setitem p k v h'
                           in (\<forall>n arm. reg n = Some arm \<longrightarrow>
                                 dicts h'' ! arm_parameters arm = dicts h ! arm_parameters arm)
                            \<and> (\<forall>j<length obs. j \<noteq> i \<longrightarrow>
                                 dicts h'' ! parameters (feats h'' ! features (obs ! j))
                                   = dicts h' ! parameters (feats h' ! features (obs ! j)))))))))"
proof -
  obtain res h' where r: "observations_from_data ord loads reg t h = (res, h')" by fastforce
  have ext: "heap_extends h h'" using r by (rule observations_from_data_extends)
  have old: "\<And>a. a < length (dicts h) \<Longrightarrow> dicts h' ! a = dicts h ! a"
    using ext by (auto simp: heap_extends_def intro: prefix_nth)
  have arms: "\<And>n arm. reg n = Some arm \<Longrightarrow> arm_parameters arm < length (dicts h)"
    using assms by (auto simp: registry_ok_def)
  have keep: "\<forall>n arm. reg n = Some arm \<longrightarrow> dicts h' ! arm_parameters arm = dicts h ! arm_parameters arm"
    using old arms by blast
  have fresh: "\<forall>i<length obs.
                   (let p = parameters (feats h' ! features (obs ! i))
                    in length (dicts h) \<le> p \<and> p < length (dicts h')
                     \<and> (\<forall>n arm. reg n = Some arm \<longrightarrow> arm_parameters arm \<noteq> p)
                     \<and> (\<forall>j<length obs. j \<noteq> i \<longrightarrow>
                           parameters (feats h' ! features (obs ! j)) \<noteq> p)
                     \<and> (\<forall>k v.
                          (let h'' = heap_setitem p k v h'
                           in (\<forall>n arm. reg n = Some arm \<longrightarrow>
                                 dicts h'' ! arm_parameters arm = dicts h ! arm_parameters arm)
                            \<and> (\<forall>j<length obs. j \<noteq> i \<longrightarrow>
                                 dicts h'' ! parameters (feats h'' ! features (obs ! j))
                                   = dicts h' ! parameters (feats h' ! features (obs ! j))))))"
    if res: "res = Inr obs" for obs
  proof -
    note s = observations_from_data_Inr [OF r [unfolded res] assms]
    have p: "\<And>i. i < length obs \<Longrightarrow> parameters (feats h' ! features (obs ! i)) = length (dicts h) + i"
      using s by (simp add: group_post_def)
    have len: "length (dicts h') = length (dicts h) + length obs" using s by simp
    have an: "\<And>n arm i. reg n = Some arm \<Longrightarrow> arm_parameters arm \<noteq> length (dicts h) + i"
      "\<And>n arm i. reg n = Some arm \<Longrightarrow> length (dicts h) + i \<noteq> arm_parameters arm"
      using arms by (metis not_add_less1)+
    show ?thesis
      unfolding Let_def
      by (intro allI impI conjI)
         (simp_all add: p len an heap_setitem_def keep)
  qed
  show ?thesis
    unfolding r fst_conv snd_conv Let_def [of res] Let_def [of h']
    using ext keep fresh by blast
qed


theorem C10_registry_not_mutated_witness:
  "dicts (snd (observations_from_data id_columns
      (\<lambda>s. if s = (''{'' @ [CHR 0x22] @ ''x'' @ [CHR 0x22] @ '': 5}'')
            then JObject [(''x'', PInt 5)] else JMalformed)
      [''arm1'' \<mapsto> \<lparr>arm_parameters = 0\<rparr>]
      (\<lparr>columns = [''arm_name'', ''fidelities'', ''metric_name'', ''mean'', ''sem''],
      rows = [\<lparr>c_arm_name = ''arm1'', c_trial_index = 0, c_start_time = 0, c_end_time = 0,
               c_random_split = 0, c_fidelities = (''{'' @ [CHR 0x22] @ ''x'' @ [CHR 0x22] @ '': 5}''),
               c_metric_name = ''m1'', c_mean = 3, c_sem = 2\<rparr>]\<rparr> :: int table)
      (\<lparr>dicts = [[(''x'', PInt 1), (''y'', PInt 2)]], feats = [], datas = []\<rparr> :: int heap))) ! 0
    = [(''x'', PInt 1), (''y'', PInt 2)]
   \<and> dicts (snd (observations_from_data id_columns
      (\<lambda>s. if s = (''{'' @ [CHR 0x22] @ ''x'' @ [CHR 0x22] @ '': 5}'')
            then JObject [(''x'', PInt 5)] else JMalformed)
      [''arm1'' \<mapsto> \<lparr>arm_parameters = 0\<rparr>]
      (\<lparr>columns = [''arm_name'', ''fidelities'', ''metric_name'', ''mean'', ''sem''],
      rows = [\<lparr>c_arm_name = ''arm1'', c_trial_index = 0, c_start_time = 0, c_end_time = 0,
               c_random_split = 0, c_fidelities = (''{'' @ [CHR 0x22] @ ''x'' @ [CHR 0x22] @ '': 5}''),
               c_metric_name = ''m1'', c_mean = 3, c_sem = 2\<rparr>]\<rparr> :: int table)
      (\<lparr>dicts = [[(''x'', PInt 1), (''y'', PInt 2)]], feats = [], datas = []\<rparr> :: int heap))) ! 1
    = [(''x'', PInt 5), (''y'', PInt 2)]"
proof -
  let ?h = "(\<lparr>dicts = [[(''x'', PInt 1), (''y'', PInt 2)]], feats = [], datas = []\<rparr> :: int heap)"
  let ?reg = "[''arm1'' \<mapsto> \<lparr>arm_parameters = 0\<rparr>]"
  let ?call = "(observations_from_data id_columns
      (\<lambda>s. if s = (''{'' @ [CHR 0x22] @ ''x'' @ [CHR 0x22] @ '': 5}'')
            then JObject [(''x'', PInt 5)] else JMalformed)
      [''arm1'' \<mapsto> \<lparr>arm_parameters = 0\<rparr>]
      (\<lparr>columns = [''arm_name'', ''fidelities'', ''metric_name'', ''mean'', ''sem''],
      rows = [\<lparr>c_arm_name = ''arm1'', c_trial_index = 0, c_start_time = 0, c_end_time = 0,
               c_random_split = 0, c_fidelities = (''{'' @ [CHR 0x22] @ ''x'' @ [CHR 0x22] @ '': 5}''),
               c_metric_name = ''m1'', c_mean = 3, c_sem = 2\<rparr>]\<rparr> :: int table)
      (\<lparr>dicts = [[(''x'', PInt 1), (''y'', PInt 2)]], feats = [], datas = []\<rparr> :: int heap))"
  have rok: "registry_ok ?reg ?h" by (simp add: registry_ok_def)
  have a: "?reg ''arm1'' = Some \<lparr>arm_parameters = 0\<rparr>" by simp
  from C10_registry_not_mutated [OF rok, unfolded Let_def, THEN conjunct2, THEN conjunct1,
      rule_format, OF a]
  have "dicts (snd ?call) ! 0 = dicts ?h ! 0" by simp
  moreover have "dicts (snd ?call) ! 1 = [(''x'', PInt 5), (''y'', PInt 2)]"
    by (simp add: observations_from_data_def feature_cols_def id_columns_def groupby_def key_of_def
        less_cell_def observation_of_group_def dict_copy_def Let_def apply_fidelities_def
        features_get_def new_ObservationFeatures_def new_ObservationData_def values1_def
        np_diag_def np_square_def heap_setitem_def)
  ultimately show ?thesis by simp
qed

text \<open>
  C6. An arm whose parameter mapping is empty: the copied dict is empty when \<open>obs_kwargs\<close>
  is filled, so the call of the constructor of \<open>ObservationFeatures\<close> has no argument
  \<open>parameters\<close> and raises \<open>TypeError\<close>. This is so without a \<open>fidelities\<close> column and with
  one: the fidelity items are assigned into the copied dict after the test, and the dict
  is passed to nothing. No observation is made in either case.
\<close>

theorem C6_empty_parameters_TypeError:
  "observations_from_data id_columns (\<lambda>s. JMalformed)
      [''a'' \<mapsto> \<lparr>arm_parameters = 0\<rparr>]
      (\<lparr>columns = [''arm_name'', ''metric_name'', ''mean'', ''sem''],
      rows = [\<lparr>c_arm_name = ''a'', c_trial_index = 0, c_start_time = 0, c_end_time = 0,
               c_random_split = 0, c_fidelities = '''',
               c_metric_name = ''m1'', c_mean = 3, c_sem = 2\<rparr>]\<rparr> :: int table)
      (\<lparr>dicts = [[]], feats = [], datas = []\<rparr> :: int heap)
    = (Inl TypeError, \<lparr>dicts = [[], []], feats = [], datas = []\<rparr>)
   \<and> observations_from_data id_columns
      (\<lambda>s. if s = (''{'' @ [CHR 0x22] @ ''x'' @ [CHR 0x22] @ '': 5}'')
            then JObject [(''x'', PInt 5)] else JMalformed)
      [''a'' \<mapsto> \<lparr>arm_parameters = 0\<rparr>]
      (\<lparr>columns = [''arm_name'', ''fidelities'', ''metric_name'', ''mean'', ''sem''],
      rows = [\<lparr>c_arm_name = ''a'', c_trial_index = 0, c_start_time = 0, c_end_time = 0,
               c_random_split = 0, c_fidelities = (''{'' @ [CHR 0x22] @ ''x'' @ [CHR 0x22] @ '': 5}''),
               c_metric_name = ''m1'', c_mean = 3, c_sem = 2\<rparr>]\<rparr> :: int table)
      (\<lparr>dicts = [[]], feats = [], datas = []\<rparr> :: int heap)
    = (Inl TypeError, \<lparr>dicts = [[], [(''x'', PInt 5)]], feats = [], datas = []\<rparr>)"
  by (simp add: observations_from_data_def feature_cols_def id_columns_def groupby_def key_of_def
        less_cell_def observation_of_group_def dict_copy_def Let_def apply_fidelities_def
        features_get_def new_ObservationFeatures_def new_ObservationData_def values1_def
        np_diag_def np_square_def heap_setitem_def)

end
